theory Spec2Isabelle
  imports Complex_Main "HOL-Library.Multiset"
begin

section \<open>JavaScript values\<close>

text \<open>
  The handlers of \<open>server1.js\<close> read the fields of \<open>req.body\<close>, the object that
  \<open>express.json()\<close> parsed from the request, and apply \<open>!v\<close>, \<open>v === undefined\<close>,
  \<open>v < 1\<close> and \<open>v > 5\<close> to them. A number is given by its value: a finite one is a
  rational, and the two infinities and NaN are values of their own.
\<close>

datatype jsnum = Fin rat | PosInf | NegInf | NaN

datatype jsval =
    JUndefined
  | JNull
  | JBool bool
  | JNum jsnum
  | JStr string
  | JArr "jsval list"
  | JObj "(string \<times> jsval) list"

text \<open>A parsed object, as a map from property names; a property that is absent reads as
  \<open>undefined\<close>, which is what the destructuring \<open>const { a, b } = req.body\<close> binds.\<close>

type_synonym obj = "string \<rightharpoonup> jsval"

definition body_field :: "obj \<Rightarrow> string \<Rightarrow> jsval" where
  "body_field b k = (case b k of None \<Rightarrow> JUndefined | Some v \<Rightarrow> v)"

text \<open>\<open>!v\<close> is \<open>\<not> truthy v\<close>: the falsy values are \<open>undefined\<close>, \<open>null\<close>, \<open>false\<close>,
  \<open>0\<close>, NaN and the empty string.\<close>

fun truthy :: "jsval \<Rightarrow> bool" where
  "truthy JUndefined = False"
| "truthy JNull = False"
| "truthy (JBool b) = b"
| "truthy (JNum n) = (n \<noteq> Fin 0 \<and> n \<noteq> NaN)"
| "truthy (JStr s) = (s \<noteq> [])"
| "truthy (JArr xs) = True"
| "truthy (JObj kvs) = True"

text \<open>\<open>a < b\<close> on numbers: false as soon as one side is NaN.\<close>

fun js_less :: "jsnum \<Rightarrow> jsnum \<Rightarrow> bool" where
  "js_less NaN b = False"
| "js_less a NaN = False"
| "js_less (Fin x) (Fin y) = (x < y)"
| "js_less (Fin x) PosInf = True"
| "js_less (Fin x) NegInf = False"
| "js_less PosInf b = False"
| "js_less NegInf NegInf = False"
| "js_less NegInf b = True"

text \<open>
  What the file relies on without defining it is taken as a parameter: the two conversions
  of the language between numbers and strings (a string read as a number, a number
  printed), and the declarations of the two tables (how a query parameter is read as a value
  of the \<open>id\<close> column, and the instant by which the \<open>datetime\<close> column orders a stored
  value).
\<close>

record cfg =
  str_num :: "string \<Rightarrow> jsnum"
  num_str :: "jsnum \<Rightarrow> string"
  id_of :: "jsval \<Rightarrow> nat option"
  ts_of :: "jsval \<Rightarrow> int"

datatype js_error = ReferenceError string | TypeError string

text \<open>
  The string a value becomes inside a template literal. A parsed object holds no function,
  so an own property \<open>toString\<close> is never callable and the inherited \<open>valueOf\<close> gives the
  object back: the conversion of such an object throws a \<open>TypeError\<close>. Any other object
  prints as \<open>[object Object]\<close>. An array joins the strings of its elements with commas,
  \<open>null\<close> and \<open>undefined\<close> elements printing as nothing, and throws when an element does.
\<close>

fun to_string :: "cfg \<Rightarrow> jsval \<Rightarrow> js_error + string"
  and join_strings :: "cfg \<Rightarrow> jsval list \<Rightarrow> js_error + string" where
  "to_string c JUndefined = Inr ''undefined''"
| "to_string c JNull = Inr ''null''"
| "to_string c (JBool b) = Inr (if b then ''true'' else ''false'')"
| "to_string c (JNum n) = Inr (num_str c n)"
| "to_string c (JStr s) = Inr s"
| "to_string c (JArr xs) = join_strings c xs"
| "to_string c (JObj kvs) =
     (if ''toString'' \<in> set (map fst kvs)
      then Inl (TypeError ''Cannot convert object to primitive value'')
      else Inr ''[object Object]'')"
| "join_strings c [] = Inr []"
| "join_strings c (x # xs) =
     (case (if x = JUndefined \<or> x = JNull then Inr [] else to_string c x) of
        Inl err \<Rightarrow> Inl err
      | Inr s \<Rightarrow>
          (if xs = [] then Inr s
           else (case join_strings c xs of
                   Inl err \<Rightarrow> Inl err
                 | Inr t \<Rightarrow> Inr (s @ '','' @ t))))"

text \<open>The number a value is compared as when the other side of \<open><\<close> or \<open>></\<close> is a
  number; arrays and objects go through their string form, and throw when it does.\<close>

fun to_number :: "cfg \<Rightarrow> jsval \<Rightarrow> js_error + jsnum" where
  "to_number c JUndefined = Inr NaN"
| "to_number c JNull = Inr (Fin 0)"
| "to_number c (JBool b) = Inr (Fin (if b then 1 else 0))"
| "to_number c (JNum n) = Inr n"
| "to_number c (JStr s) = Inr (str_num c s)"
| "to_number c (JArr xs) =
     (case to_string c (JArr xs) of Inl err \<Rightarrow> Inl err | Inr s \<Rightarrow> Inr (str_num c s))"
| "to_number c (JObj kvs) =
     (case to_string c (JObj kvs) of Inl err \<Rightarrow> Inl err | Inr s \<Rightarrow> Inr (str_num c s))"

text \<open>The substitutions of one template literal, converted from left to right; the first
  that throws ends the evaluation.\<close>

fun interpolate :: "cfg \<Rightarrow> jsval list \<Rightarrow> js_error + string list" where
  "interpolate c [] = Inr []"
| "interpolate c (v # vs) =
     (case to_string c v of
        Inl err \<Rightarrow> Inl err
      | Inr s \<Rightarrow> (case interpolate c vs of Inl err \<Rightarrow> Inl err | Inr ss \<Rightarrow> Inr (s # ss)))"

text \<open>Reading an identifier: a name with no binding in scope throws.\<close>

definition lookup :: "(string \<rightharpoonup> jsval) \<Rightarrow> string \<Rightarrow> js_error + jsval" where
  "lookup scope x = (case scope x of None \<Rightarrow> Inl (ReferenceError x) | Some v \<Rightarrow> Inr v)"

section \<open>The store\<close>

text \<open>
  Modelled from the spec: the tables \<open>bookings4\<close> and \<open>testimonials\<close>, whose
  declarations are not in the source file. The spec gives
  \<open>bookings4(id, service, duration, price, name, phone, datetime, payment_status default
  'pending', booking_time default now())\<close> and \<open>testimonials(id, reviewer_name,
  reviewer_email, review_title, review_text, rating, genuine_opinion, created_at)\<close>, with
  ids generated by the server and unique. A column holds the value it was given (NULL for
  a parameter that is \<open>undefined\<close>); ids come from a counter per table that only grows.
\<close>

record booking =
  booking_id :: nat
  service :: jsval
  duration :: jsval
  price :: jsval
  name :: jsval
  phone :: jsval
  datetime :: jsval
  payment_status :: string
  booking_time :: int

record testimonial =
  testimonial_id :: nat
  reviewer_name :: jsval
  reviewer_email :: jsval
  review_title :: jsval
  review_text :: jsval
  rating :: jsval
  genuine_opinion :: jsval
  created_at :: int

record db =
  bookings4 :: "booking list"
  bookings4_seq :: nat
  testimonials :: "testimonial list"
  testimonials_seq :: nat

definition init_db :: db where
  "init_db = \<lparr>bookings4 = [], bookings4_seq = 1, testimonials = [], testimonials_seq = 1\<rparr>"

text \<open>The seven statements the handlers send, each with its parameters in the order of
  the source's parameter array.\<close>

datatype sql =
    SELECT_bookings4
  | INSERT_bookings4 jsval jsval jsval jsval jsval jsval
  | DELETE_bookings4 jsval
  | UPDATE_bookings4 string jsval
  | INSERT_testimonials jsval jsval jsval jsval jsval jsval
  | SELECT_testimonials
  | DELETE_testimonials jsval

datatype rowv = BookingRow booking | TestimonialRow testimonial | IdRow nat

record qresult =
  rows :: "rowv list"
  rowCount :: nat

text \<open>A value bound to \<open>$n\<close> in \<open>VALUES\<close>: \<open>undefined\<close> reaches the store as NULL, as
  \<open>null\<close> does.\<close>

definition sql_value :: "jsval \<Rightarrow> jsval" where
  "sql_value v = (case v of JUndefined \<Rightarrow> JNull | _ \<Rightarrow> v)"

text \<open>\<open>WHERE id = $n\<close>: whether the parameter \<open>p\<close>, read as an id, is the id \<open>i\<close> of
  a row.\<close>

definition matches :: "cfg \<Rightarrow> jsval \<Rightarrow> nat \<Rightarrow> bool" where
  "matches c p i = (id_of c p = Some i)"

text \<open>
  Modelled from the spec: what each statement does to the tables.
  \<^item> \<open>SELECT * FROM bookings4 ORDER BY datetime DESC\<close>: every row, latest instant first
    (rows of one instant keep the table's order);
  \<^item> \<open>INSERT INTO bookings4(service, ...) VALUES($1, ..., $6) RETURNING *\<close>: a row with the
    next id, \<open>payment_status\<close> at its default \<open>'pending'\<close> and \<open>booking_time\<close> at the
    store's current time;
  \<^item> \<open>DELETE FROM bookings4 WHERE id = $1 RETURNING id\<close>;
  \<^item> \<open>UPDATE bookings4 SET payment_status = $1 WHERE id = $2 RETURNING *\<close>;
  \<^item> the \<open>INSERT\<close>, \<open>SELECT\<close> (by \<open>created_at\<close>, descending) and \<open>DELETE\<close> of
    \<open>testimonials\<close> likewise, \<open>created_at\<close> being set by \<open>NOW()\<close>.
\<close>

fun exec :: "cfg \<Rightarrow> int \<Rightarrow> sql \<Rightarrow> db \<Rightarrow> qresult \<times> db" where
  "exec c t SELECT_bookings4 d =
     (let rs = sort_key (\<lambda>r. - ts_of c (datetime r)) (bookings4 d)
      in (\<lparr>rows = map BookingRow rs, rowCount = length rs\<rparr>, d))"
| "exec c t (INSERT_bookings4 p1 p2 p3 p4 p5 p6) d =
     (let r = \<lparr>booking_id = bookings4_seq d, service = sql_value p1,
                duration = sql_value p2, price = sql_value p3, name = sql_value p4,
                phone = sql_value p5, datetime = sql_value p6, payment_status = ''pending'',
                booking_time = t\<rparr>
      in (\<lparr>rows = [BookingRow r], rowCount = 1\<rparr>,
          d\<lparr>bookings4 := bookings4 d @ [r], bookings4_seq := Suc (bookings4_seq d)\<rparr>))"
| "exec c t (DELETE_bookings4 p1) d =
     (let hit = filter (\<lambda>r. matches c p1 (booking_id r)) (bookings4 d)
      in (\<lparr>rows = map (\<lambda>r. IdRow (booking_id r)) hit, rowCount = length hit\<rparr>,
          d\<lparr>bookings4 := filter (\<lambda>r. \<not> matches c p1 (booking_id r)) (bookings4 d)\<rparr>))"
| "exec c t (UPDATE_bookings4 p1 p2) d =
     (let hit = filter (\<lambda>r. matches c p2 (booking_id r)) (bookings4 d)
      in (\<lparr>rows = map (\<lambda>r. BookingRow (r\<lparr>payment_status := p1\<rparr>)) hit,
           rowCount = length hit\<rparr>,
          d\<lparr>bookings4 := map (\<lambda>r. if matches c p2 (booking_id r)
                                     then r\<lparr>payment_status := p1\<rparr> else r) (bookings4 d)\<rparr>))"
| "exec c t (INSERT_testimonials p1 p2 p3 p4 p5 p6) d =
     (let r = \<lparr>testimonial_id = testimonials_seq d, reviewer_name = sql_value p1,
                reviewer_email = sql_value p2, review_title = sql_value p3,
                review_text = sql_value p4, rating = sql_value p5,
                genuine_opinion = sql_value p6, created_at = t\<rparr>
      in (\<lparr>rows = [TestimonialRow r], rowCount = 1\<rparr>,
          d\<lparr>testimonials := testimonials d @ [r],
            testimonials_seq := Suc (testimonials_seq d)\<rparr>))"
| "exec c t SELECT_testimonials d =
     (let rs = sort_key (\<lambda>r. - created_at r) (testimonials d)
      in (\<lparr>rows = map TestimonialRow rs, rowCount = length rs\<rparr>, d))"
| "exec c t (DELETE_testimonials p1) d =
     (let hit = filter (\<lambda>r. matches c p1 (testimonial_id r)) (testimonials d)
      in (\<lparr>rows = map (\<lambda>r. IdRow (testimonial_id r)) hit, rowCount = length hit\<rparr>,
          d\<lparr>testimonials :=
              filter (\<lambda>r. \<not> matches c p1 (testimonial_id r)) (testimonials d)\<rparr>))"

text \<open>
  What one request meets outside the handler: \<open>fault\<close> is the message of the error that
  \<open>pool.query\<close> rejects with at this request, if it does (the store unreachable, a value
  the column's type refuses, a constraint), and \<open>now\<close> is the store's clock.
\<close>

record call =
  fault :: "string option"
  now :: int

text \<open>\<open>await pool.query(text, params)\<close>: the error (\<open>Inl\<close> its \<open>message\<close>), the store
  left as it was, or the statement's result.\<close>

definition pool_query :: "cfg \<Rightarrow> call \<Rightarrow> sql \<Rightarrow> db \<Rightarrow> (string + qresult) \<times> db" where
  "pool_query c e q d =
     (case fault e of
        Some m \<Rightarrow> (Inl m, d)
      | None \<Rightarrow> (case exec c (now e) q d of (r, d') \<Rightarrow> (Inr r, d')))"

section \<open>Responses\<close>

datatype body =
    Error string
  | Message string
  | Rows "rowv list"
  | Row rowv
  | Initiated string jsval jsval string
  | NoValue

record response =
  status :: nat
  body :: body

text \<open>A handler either sends a response or lets an exception escape with none sent by
  it. What the framework or the runtime does with an escaped exception is outside the
  source file and is not modelled.\<close>

datatype outcome = Responded response | Uncaught js_error

text \<open>What handling one request amounts to: the outcome, the delay of the timer it was
  produced under (0 when no timer is set), the store afterwards and the statements that
  were sent to it. Console output is left out.\<close>

record result =
  outcome :: outcome
  after_ms :: nat
  store :: db
  issued :: "sql list"

definition respond :: "nat \<Rightarrow> body \<Rightarrow> db \<Rightarrow> sql list \<Rightarrow> result" where
  "respond st bd d qs =
     \<lparr>outcome = Responded \<lparr>status = st, body = bd\<rparr>, after_ms = 0, store = d, issued = qs\<rparr>"

text \<open>\<open>result.rows[0]\<close>\<close>

definition first_row :: "rowv list \<Rightarrow> body" where
  "first_row rs = (case rs of [] \<Rightarrow> NoValue | r # _ \<Rightarrow> Row r)"

section \<open>The handlers\<close>

text \<open>\<open>app.get('/bookings4')\<close>, lines 52 to 62.\<close>

definition get_bookings4 :: "cfg \<Rightarrow> call \<Rightarrow> db \<Rightarrow> result" where
  "get_bookings4 c e d =
     (case pool_query c e SELECT_bookings4 d of
        (Inr r, d') \<Rightarrow> respond 200 (Rows (rows r)) d' [SELECT_bookings4]
      | (Inl m, d') \<Rightarrow>
          respond 500 (Error ''Failed to retrieve bookings from the database.'') d'
            [SELECT_bookings4])"

text \<open>\<open>app.post('/bookings4')\<close>, lines 70 to 92.\<close>

definition post_bookings4 :: "cfg \<Rightarrow> call \<Rightarrow> obj \<Rightarrow> db \<Rightarrow> result" where
  "post_bookings4 c e b d =
     (let service = body_field b ''service''; duration = body_field b ''duration'';
          price = body_field b ''price''; name = body_field b ''name'';
          phone = body_field b ''phone''; datetime = body_field b ''datetime''
      in if \<not> truthy service \<or> \<not> truthy duration \<or> \<not> truthy price \<or> \<not> truthy name
            \<or> \<not> truthy phone \<or> \<not> truthy datetime
         then respond 400 (Error ''All booking fields are required.'') d []
         else (let q = INSERT_bookings4 service duration price name phone datetime
               in case pool_query c e q d of
                    (Inr r, d') \<Rightarrow> respond 201 (first_row (rows r)) d' [q]
                  | (Inl m, d') \<Rightarrow>
                      respond 500 (Error ''Failed to add booking to the database.'') d' [q]))"

text \<open>\<open>app.delete('/bookings4/:id')\<close>, lines 100 to 117; \<open>idp\<close> is the source's \<open>id\<close>, the
  path segment, a string.\<close>

definition delete_bookings4 :: "cfg \<Rightarrow> call \<Rightarrow> string \<Rightarrow> db \<Rightarrow> result" where
  "delete_bookings4 c e idp d =
     (let q = DELETE_bookings4 (JStr idp)
      in case pool_query c e q d of
           (Inr r, d') \<Rightarrow>
             if rowCount r = 0
             then respond 404 (Error (''Booking with ID '' @ idp @ '' not found.'')) d' [q]
             else respond 200 (Message (''Booking with ID '' @ idp @ '' deleted successfully.''))
                    d' [q]
         | (Inl m, d') \<Rightarrow>
             respond 500 (Error ''Failed to delete booking from the database.'') d' [q])"

text \<open>\<open>app.post('/api/payments/initiate')\<close>, lines 128 to 154. After the check, line 135
  builds the template literal of \<open>console.log\<close> from \<open>bookingId\<close>, \<open>serviceName\<close> and
  \<open>amount\<close>, in this order; a value that cannot be converted throws there, before the
  timer is set. The callback of \<open>setTimeout(..., 1000)\<close> reads \<open>simulatedQrCodeUrl\<close> and
  \<open>transactionId\<close> while it builds the argument of \<open>res.status(200).json(...)\<close>. The
  bindings in scope there are the three destructured fields, besides \<open>req\<close>, \<open>res\<close> and the
  module's \<open>express\<close>, \<open>Pool\<close>, \<open>cors\<close>, \<open>app\<close>, \<open>PORT\<close> and \<open>pool\<close>, none of which is
  one of the two names; the two declarations on lines 138 and 139 are commented out.\<close>

definition initiate_scope :: "jsval \<Rightarrow> jsval \<Rightarrow> jsval \<Rightarrow> (string \<rightharpoonup> jsval)" where
  "initiate_scope amount serviceName bookingId =
     [''amount'' \<mapsto> amount, ''serviceName'' \<mapsto> serviceName, ''bookingId'' \<mapsto> bookingId]"

definition post_payments_initiate :: "cfg \<Rightarrow> obj \<Rightarrow> db \<Rightarrow> result" where
  "post_payments_initiate c b d =
     (let amount = body_field b ''amount''; serviceName = body_field b ''serviceName'';
          bookingId = body_field b ''bookingId''
      in if \<not> truthy amount \<or> \<not> truthy serviceName \<or> \<not> truthy bookingId
         then respond 400
                (Error ''Payment amount, service name, and booking ID are required to initiate payment.'')
                d []
         else (case interpolate c [bookingId, serviceName, amount] of
                 Inl err \<Rightarrow> \<lparr>outcome = Uncaught err, after_ms = 0, store = d, issued = []\<rparr>
               | Inr logged \<Rightarrow>
                   (let scope = initiate_scope amount serviceName bookingId
                    in \<lparr>outcome =
                          (case lookup scope ''simulatedQrCodeUrl'' of
                             Inl err \<Rightarrow> Uncaught err
                           | Inr qr \<Rightarrow>
                               (case lookup scope ''transactionId'' of
                                  Inl err \<Rightarrow> Uncaught err
                                | Inr tx \<Rightarrow>
                                    Responded \<lparr>status = 200,
                                      body = Initiated
                                        ''Payment initiation successful (simulated). Scan QR to complete.''
                                        qr tx ''pending''\<rparr>)),
                        after_ms = 1000, store = d, issued = []\<rparr>)))"

text \<open>\<open>app.post('/api/payments/confirm')\<close>, lines 166 to 191. On both paths after the
  query the first thing evaluated is a template literal with \<open>bookingId\<close> (the
  \<open>console.warn\<close> of line 181, the \<open>console.log\<close> of line 185), inside the \<open>try\<close>: when
  the conversion throws, the \<open>catch\<close> answers 500, the update having been made.\<close>

definition post_payments_confirm :: "cfg \<Rightarrow> call \<Rightarrow> obj \<Rightarrow> db \<Rightarrow> result" where
  "post_payments_confirm c e b d =
     (let bookingId = body_field b ''bookingId''
      in if \<not> truthy bookingId
         then respond 400 (Error ''Booking ID is required to confirm payment.'') d []
         else (let q = UPDATE_bookings4 ''completed'' bookingId
               in case pool_query c e q d of
                    (Inr r, d') \<Rightarrow>
                      (case to_string c bookingId of
                         Inl err \<Rightarrow>
                           respond 500
                             (Error ''Failed to update payment status in the database.'') d' [q]
                       | Inr s \<Rightarrow>
                           if rowCount r = 0
                           then respond 404
                                  (Error (''Booking with ID '' @ s
                                          @ '' not found for payment confirmation.'')) d' [q]
                           else respond 200
                                  (Message (''Payment for booking ID '' @ s
                                            @ '' confirmed successfully.'')) d' [q])
                  | (Inl m, d') \<Rightarrow>
                      respond 500 (Error ''Failed to update payment status in the database.'')
                        d' [q]))"

text \<open>\<open>app.post('/api/testimonials')\<close>, lines 200 to 222. The comparison of line 207
  converts \<open>rating\<close> to a number, outside the \<open>try\<close>: when the conversion throws, the
  exception escapes the handler.\<close>

definition post_testimonials :: "cfg \<Rightarrow> call \<Rightarrow> obj \<Rightarrow> db \<Rightarrow> result" where
  "post_testimonials c e b d =
     (let reviewerName = body_field b ''reviewerName'';
          reviewerEmail = body_field b ''reviewerEmail'';
          reviewTitle = body_field b ''reviewTitle'';
          reviewText = body_field b ''reviewText'';
          rating = body_field b ''rating'';
          genuineOpinion = body_field b ''genuineOpinion''
      in if \<not> truthy reviewerName \<or> \<not> truthy reviewerEmail \<or> \<not> truthy reviewText
            \<or> \<not> truthy rating \<or> genuineOpinion = JUndefined
         then respond 400 (Error ''All testimonial fields (except title) are required.'') d []
         else (case to_number c rating of
                 Inl err \<Rightarrow> \<lparr>outcome = Uncaught err, after_ms = 0, store = d, issued = []\<rparr>
               | Inr n \<Rightarrow>
                   if js_less n (Fin 1) \<or> js_less (Fin 5) n
                   then respond 400 (Error ''Rating must be between 1 and 5.'') d []
                   else (let q = INSERT_testimonials reviewerName reviewerEmail reviewTitle
                                   reviewText rating genuineOpinion
                         in case pool_query c e q d of
                              (Inr r, d') \<Rightarrow> respond 201 (first_row (rows r)) d' [q]
                            | (Inl m, d') \<Rightarrow>
                                respond 500
                                  (Error ''Failed to add testimonial to the database.'') d' [q])))"

text \<open>\<open>app.get('/api/testimonials')\<close>, lines 229 to 238.\<close>

definition get_testimonials :: "cfg \<Rightarrow> call \<Rightarrow> db \<Rightarrow> result" where
  "get_testimonials c e d =
     (case pool_query c e SELECT_testimonials d of
        (Inr r, d') \<Rightarrow> respond 200 (Rows (rows r)) d' [SELECT_testimonials]
      | (Inl m, d') \<Rightarrow>
          respond 500 (Error ''Failed to retrieve testimonials from the database.'') d'
            [SELECT_testimonials])"

text \<open>\<open>app.delete('/api/testimonials/:id')\<close>, lines 246 to 264; the 500 body carries
  \<open>err.message || 'Unknown database error'\<close>.\<close>

definition delete_testimonials :: "cfg \<Rightarrow> call \<Rightarrow> string \<Rightarrow> db \<Rightarrow> result" where
  "delete_testimonials c e idp d =
     (let q = DELETE_testimonials (JStr idp)
      in case pool_query c e q d of
           (Inr r, d') \<Rightarrow>
             if rowCount r = 0
             then respond 404 (Error (''Testimonial with ID '' @ idp @ '' not found.'')) d' [q]
             else respond 200
                    (Message (''Testimonial with ID '' @ idp @ '' deleted successfully.'')) d' [q]
         | (Inl m, d') \<Rightarrow>
             respond 500
               (Error (''Failed to delete testimonial from the database: ''
                       @ (if m = [] then ''Unknown database error'' else m))) d' [q])"

section \<open>The service\<close>

datatype request =
    GET_bookings4
  | POST_bookings4 obj
  | DELETE_bookings4_id string
  | POST_payments_initiate obj
  | POST_payments_confirm obj
  | POST_testimonials obj
  | GET_testimonials
  | DELETE_testimonials_id string

fun handle :: "cfg \<Rightarrow> call \<Rightarrow> request \<Rightarrow> db \<Rightarrow> result" where
  "handle c e GET_bookings4 d = get_bookings4 c e d"
| "handle c e (POST_bookings4 b) d = post_bookings4 c e b d"
| "handle c e (DELETE_bookings4_id i) d = delete_bookings4 c e i d"
| "handle c e (POST_payments_initiate b) d = post_payments_initiate c b d"
| "handle c e (POST_payments_confirm b) d = post_payments_confirm c e b d"
| "handle c e (POST_testimonials b) d = post_testimonials c e b d"
| "handle c e GET_testimonials d = get_testimonials c e d"
| "handle c e (DELETE_testimonials_id i) d = delete_testimonials c e i d"

text \<open>The store states the service can bring about, from empty tables.\<close>

inductive reachable :: "cfg \<Rightarrow> db \<Rightarrow> bool" for c :: cfg where
  reachable_init: "reachable c init_db"
| reachable_step: "reachable c d \<Longrightarrow> reachable c (store (handle c e rq d))"

text \<open>The status and body of the response, when one was sent.\<close>

definition sent :: "result \<Rightarrow> (nat \<times> body) option" where
  "sent r = (case outcome r of Responded p \<Rightarrow> Some (status p, body p) | Uncaught x \<Rightarrow> None)"

text \<open>No two rows of \<open>bookings4\<close> share an id, and the counter is beyond every id in
  use.\<close>

definition ids_fresh :: "db \<Rightarrow> bool" where
  "ids_fresh d = (distinct (map booking_id (bookings4 d))
                  \<and> (\<forall>r \<in> set (bookings4 d). booking_id r < bookings4_seq d))"

definition status_ok :: "db \<Rightarrow> bool" where
  "status_ok d = (\<forall>r \<in> set (bookings4 d).
                    payment_status r = ''pending'' \<or> payment_status r = ''completed'')"

subsection \<open>An instance of the parameters\<close>

text \<open>
  For running the model on concrete requests: an \<open>id\<close> column of natural numbers, read
  from a decimal string or from a number; a \<open>datetime\<close> column ordered by the number
  stored or, for a string, by the number its digits spell (which orders the timestamps
  \<open>YYYY-MM-DDThh:mm:ssZ\<close> as time does); strings of digits read as numbers; natural
  numbers printed in decimal (no other number is printed in what follows).
\<close>

fun digits :: "nat \<Rightarrow> string" where
  "digits n = (if n < 10 then [''0123456789'' ! n]
               else digits (n div 10) @ [''0123456789'' ! (n mod 10)])"

definition digit_val :: "char \<Rightarrow> nat option" where
  "digit_val ch = map_of [(CHR ''0'', 0), (CHR ''1'', 1), (CHR ''2'', 2), (CHR ''3'', 3),
     (CHR ''4'', 4), (CHR ''5'', 5), (CHR ''6'', 6), (CHR ''7'', 7), (CHR ''8'', 8),
     (CHR ''9'', 9)] ch"

fun decimal :: "nat \<Rightarrow> string \<Rightarrow> nat option" where
  "decimal acc [] = Some acc"
| "decimal acc (ch # s) =
     (case digit_val ch of None \<Rightarrow> None | Some k \<Rightarrow> decimal (10 * acc + k) s)"

fun spelled :: "nat \<Rightarrow> string \<Rightarrow> nat" where
  "spelled acc [] = acc"
| "spelled acc (ch # s) =
     (case digit_val ch of None \<Rightarrow> spelled acc s | Some k \<Rightarrow> spelled (10 * acc + k) s)"

definition sample_cfg :: cfg where
  "sample_cfg =
     \<lparr>str_num = (\<lambda>s. case decimal 0 s of None \<Rightarrow> NaN | Some n \<Rightarrow> Fin (of_nat n)),
      num_str = (\<lambda>n. case n of
                    Fin q \<Rightarrow> (if 0 \<le> q \<and> of_int \<lfloor>q\<rfloor> = q then digits (nat \<lfloor>q\<rfloor>) else [])
                  | PosInf \<Rightarrow> ''Infinity'' | NegInf \<Rightarrow> ''-Infinity'' | NaN \<Rightarrow> ''NaN''),
      id_of = (\<lambda>v. case v of JStr s \<Rightarrow> (if s = [] then None else decimal 0 s)
                  | JNum (Fin q) \<Rightarrow>
                      (if 0 \<le> q \<and> of_int \<lfloor>q\<rfloor> = q then Some (nat \<lfloor>q\<rfloor>) else None)
                  | _ \<Rightarrow> None),
      ts_of = (\<lambda>v. case v of JNum (Fin q) \<Rightarrow> \<lfloor>q\<rfloor> | JStr s \<Rightarrow> int (spelled 0 s)
                  | _ \<Rightarrow> 0)\<rparr>"

definition ok_call :: call where
  "ok_call = \<lparr>fault = None, now = 7\<rparr>"

text \<open>The booking of the spec's scenario, the row and the store it gives from empty
  tables, and the same request with a price of 0.\<close>

definition massage_body :: obj where
  "massage_body = [''service'' \<mapsto> JStr ''Massage'', ''duration'' \<mapsto> JStr ''60m'',
     ''price'' \<mapsto> JNum (Fin 50), ''name'' \<mapsto> JStr ''Ana'', ''phone'' \<mapsto> JStr ''555-1234'',
     ''datetime'' \<mapsto> JStr ''2025-01-01T10:00:00Z'']"

definition massage_row :: booking where
  "massage_row = \<lparr>booking_id = 1, service = JStr ''Massage'', duration = JStr ''60m'',
     price = JNum (Fin 50), name = JStr ''Ana'', phone = JStr ''555-1234'',
     datetime = JStr ''2025-01-01T10:00:00Z'', payment_status = ''pending'', booking_time = 7\<rparr>"

definition massage_db :: db where
  "massage_db = \<lparr>bookings4 = [massage_row], bookings4_seq = 2, testimonials = [],
     testimonials_seq = 1\<rparr>"

definition unpriced_body :: obj where
  "unpriced_body = massage_body(''price'' \<mapsto> JNum (Fin 0))"

text \<open>Further bookings, as the scenario's but for the name and the datetime, and a store
  holding two bookings of which the later one is the second.\<close>

definition booking_body :: "string \<Rightarrow> string \<Rightarrow> obj" where
  "booking_body who when = massage_body(''name'' \<mapsto> JStr who, ''datetime'' \<mapsto> JStr when)"

definition booking_row :: "nat \<Rightarrow> string \<Rightarrow> string \<Rightarrow> booking" where
  "booking_row i who when = massage_row\<lparr>booking_id := i, name := JStr who, datetime := JStr when\<rparr>"

definition two_db :: db where
  "two_db = \<lparr>bookings4 = [massage_row, booking_row 2 ''Ben'' ''2025-03-01T09:00:00Z''],
     bookings4_seq = 3, testimonials = [], testimonials_seq = 1\<rparr>"

text \<open>The spec's condition on a rating, for comparison with the handler's check: an
  integer from 1 to 5.\<close>

definition spec_rating_ok :: "jsval \<Rightarrow> bool" where
  "spec_rating_ok v = (v \<in> set [JNum (Fin 1), JNum (Fin 2), JNum (Fin 3), JNum (Fin 4), JNum (Fin 5)])"

text \<open>A testimonial request with a given rating and \<open>genuineOpinion\<close>, and the row it
  gives from empty tables.\<close>

definition review_body :: "jsval \<Rightarrow> jsval \<Rightarrow> obj" where
  "review_body rt go = [''reviewerName'' \<mapsto> JStr ''Ana'', ''reviewerEmail'' \<mapsto> JStr ''ana@example.com'',
     ''reviewText'' \<mapsto> JStr ''Very relaxing'', ''rating'' \<mapsto> rt, ''genuineOpinion'' \<mapsto> go]"

definition review_row :: "jsval \<Rightarrow> jsval \<Rightarrow> testimonial" where
  "review_row rt go = \<lparr>testimonial_id = 1, reviewer_name = JStr ''Ana'',
     reviewer_email = JStr ''ana@example.com'', review_title = JNull,
     review_text = JStr ''Very relaxing'', rating = rt, genuine_opinion = go, created_at = 7\<rparr>"

text \<open>A request at which the store is unreachable.\<close>

definition down_call :: call where
  "down_call = \<lparr>fault = Some ''connection refused'', now = 7\<rparr>"

section \<open>Basic facts\<close>

declare digits.simps [simp del]

lemma sent_respond: "sent (respond st bd d qs) = Some (st, bd)"
  by (simp add: sent_def respond_def)

lemma store_respond: "store (respond st bd d qs) = d"
  by (simp add: respond_def)

lemma issued_respond: "issued (respond st bd d qs) = qs"
  by (simp add: respond_def)

lemma sql_value_truthy: "truthy v \<Longrightarrow> sql_value v = v"
  by (cases v) (simp_all add: sql_value_def)

lemma sql_value_defined: "v \<noteq> JUndefined \<Longrightarrow> sql_value v = v"
  by (cases v) (simp_all add: sql_value_def)

lemma missing_falsy: "b k = None \<Longrightarrow> \<not> truthy (body_field b k)"
  by (simp add: body_field_def)

lemma pool_query_ok:
  "fault e = None \<Longrightarrow>
   pool_query c e q d = (Inr (fst (exec c (now e) q d)), snd (exec c (now e) q d))"
  by (simp add: pool_query_def split: prod.splits)

lemma pool_query_fault: "fault e = Some m \<Longrightarrow> pool_query c e q d = (Inl m, d)"
  by (simp add: pool_query_def)

section \<open>Payment initiation\<close>

lemma lookup_qr:
  "lookup (initiate_scope a s i) ''simulatedQrCodeUrl''
   = Inl (ReferenceError ''simulatedQrCodeUrl'')"
  by (simp add: lookup_def initiate_scope_def)

lemma initiate_store:
  "store (post_payments_initiate c b d) = d \<and> issued (post_payments_initiate c b d) = []"
  by (simp add: post_payments_initiate_def Let_def respond_def split: sum.splits)

lemma initiate_400:
  "\<not> truthy (body_field b ''amount'') \<or> \<not> truthy (body_field b ''serviceName'')
     \<or> \<not> truthy (body_field b ''bookingId'')
   \<Longrightarrow> sent (post_payments_initiate c b d)
       = Some (400, Error ''Payment amount, service name, and booking ID are required to initiate payment.'')"
  by (simp add: post_payments_initiate_def Let_def sent_respond)

lemma initiate_uncaught:
  "truthy (body_field b ''amount'') \<Longrightarrow> truthy (body_field b ''serviceName'')
   \<Longrightarrow> truthy (body_field b ''bookingId'')
   \<Longrightarrow> interpolate c [body_field b ''bookingId'', body_field b ''serviceName'',
                      body_field b ''amount''] = Inr logged
   \<Longrightarrow> post_payments_initiate c b d
       = \<lparr>outcome = Uncaught (ReferenceError ''simulatedQrCodeUrl''), after_ms = 1000,
          store = d, issued = []\<rparr>"
  by (simp add: post_payments_initiate_def Let_def lookup_qr)

lemma initiate_type_error:
  "truthy (body_field b ''amount'') \<Longrightarrow> truthy (body_field b ''serviceName'')
   \<Longrightarrow> truthy (body_field b ''bookingId'')
   \<Longrightarrow> interpolate c [body_field b ''bookingId'', body_field b ''serviceName'',
                      body_field b ''amount''] = Inl err
   \<Longrightarrow> post_payments_initiate c b d
       = \<lparr>outcome = Uncaught err, after_ms = 0, store = d, issued = []\<rparr>"
  by (simp add: post_payments_initiate_def Let_def)

text \<open>
  C1. With \<open>amount\<close>, \<open>serviceName\<close> and \<open>bookingId\<close> all present, the claim has the
  service answer 200 with a message, a QR-code URL, a transaction id and status
  \<open>"pending"\<close> after about a second. At the request
  \<open>{amount: 50, serviceName: "Massage", bookingId: 1}\<close> the code sets the timer of 1000
  ms, and the callback throws \<open>ReferenceError: simulatedQrCodeUrl is not defined\<close> before
  \<open>json\<close> is called: no response is sent.
\<close>

theorem initiate_valid_request_throws:
  "handle c e (POST_payments_initiate
       [''amount'' \<mapsto> JNum (Fin 50), ''serviceName'' \<mapsto> JStr ''Massage'',
        ''bookingId'' \<mapsto> JNum (Fin 1)]) d
   = \<lparr>outcome = Uncaught (ReferenceError ''simulatedQrCodeUrl''), after_ms = 1000,
      store = d, issued = []\<rparr>
   \<and> sent (handle c e (POST_payments_initiate
       [''amount'' \<mapsto> JNum (Fin 50), ''serviceName'' \<mapsto> JStr ''Massage'',
        ''bookingId'' \<mapsto> JNum (Fin 1)]) d) = None"
proof -
  let ?b = "[''amount'' \<mapsto> JNum (Fin 50), ''serviceName'' \<mapsto> JStr ''Massage'',
             ''bookingId'' \<mapsto> JNum (Fin 1)]"
  have "interpolate c [body_field ?b ''bookingId'', body_field ?b ''serviceName'',
           body_field ?b ''amount'']
        = Inr [num_str c (Fin 1), ''Massage'', num_str c (Fin 50)]"
    by (simp add: body_field_def)
  then have "post_payments_initiate c ?b d
       = \<lparr>outcome = Uncaught (ReferenceError ''simulatedQrCodeUrl''), after_ms = 1000,
          store = d, issued = []\<rparr>"
    by (intro initiate_uncaught) (simp_all add: body_field_def)
  then show ?thesis by (simp add: sent_def)
qed

text \<open>
  C8. Payment initiation never modifies the store: whatever the request, the store after
  handling it is the store before and no statement is sent to it, so no transaction
  record is persisted; and when \<open>amount\<close>, \<open>serviceName\<close> or \<open>bookingId\<close> is missing
  (or falsy) the response is 400.
\<close>

theorem initiate_leaves_store:
  "store (handle c e (POST_payments_initiate b) d) = d
   \<and> issued (handle c e (POST_payments_initiate b) d) = []
   \<and> ((b ''amount'' = None \<or> b ''serviceName'' = None \<or> b ''bookingId'' = None
        \<or> \<not> truthy (body_field b ''amount'') \<or> \<not> truthy (body_field b ''serviceName'')
        \<or> \<not> truthy (body_field b ''bookingId''))
       \<longrightarrow> sent (handle c e (POST_payments_initiate b) d)
           = Some (400, Error ''Payment amount, service name, and booking ID are required to initiate payment.''))"
proof (intro conjI impI)
  show "store (handle c e (POST_payments_initiate b) d) = d"
    by (simp add: initiate_store)
  show "issued (handle c e (POST_payments_initiate b) d) = []"
    by (simp add: initiate_store)
next
  assume "b ''amount'' = None \<or> b ''serviceName'' = None \<or> b ''bookingId'' = None
        \<or> \<not> truthy (body_field b ''amount'') \<or> \<not> truthy (body_field b ''serviceName'')
        \<or> \<not> truthy (body_field b ''bookingId'')"
  then have "\<not> truthy (body_field b ''amount'') \<or> \<not> truthy (body_field b ''serviceName'')
        \<or> \<not> truthy (body_field b ''bookingId'')"
    using missing_falsy [of b] by blast
  then show "sent (handle c e (POST_payments_initiate b) d)
      = Some (400, Error ''Payment amount, service name, and booking ID are required to initiate payment.'')"
    using initiate_400 [of b c d] by simp
qed

theorem initiate_leaves_store_witness:
  "store (handle sample_cfg ok_call
            (POST_payments_initiate [''amount'' \<mapsto> JNum (Fin 50), ''bookingId'' \<mapsto> JNum (Fin 1)])
            init_db) = init_db
   \<and> [''amount'' \<mapsto> JNum (Fin 50), ''bookingId'' \<mapsto> JNum (Fin 1)] ''serviceName'' = None
   \<and> sent (handle sample_cfg ok_call
            (POST_payments_initiate [''amount'' \<mapsto> JNum (Fin 50), ''bookingId'' \<mapsto> JNum (Fin 1)])
            init_db)
       = Some (400, Error ''Payment amount, service name, and booking ID are required to initiate payment.'')"
  using initiate_leaves_store [of sample_cfg ok_call
      "[''amount'' \<mapsto> JNum (Fin 50), ''bookingId'' \<mapsto> JNum (Fin 1)]" init_db]
  by simp

section \<open>Creating a booking\<close>

lemma unpriced_price: "body_field unpriced_body ''price'' = JNum (Fin 0)"
  by (simp add: unpriced_body_def body_field_def)

lemma massage_fields:
  "body_field massage_body ''service'' = JStr ''Massage''"
  "body_field massage_body ''duration'' = JStr ''60m''"
  "body_field massage_body ''price'' = JNum (Fin 50)"
  "body_field massage_body ''name'' = JStr ''Ana''"
  "body_field massage_body ''phone'' = JStr ''555-1234''"
  "body_field massage_body ''datetime'' = JStr ''2025-01-01T10:00:00Z''"
  by (simp_all add: massage_body_def body_field_def)

lemma post_bookings4_400:
  "\<not> truthy (body_field b ''service'') \<or> \<not> truthy (body_field b ''duration'')
     \<or> \<not> truthy (body_field b ''price'') \<or> \<not> truthy (body_field b ''name'')
     \<or> \<not> truthy (body_field b ''phone'') \<or> \<not> truthy (body_field b ''datetime'')
   \<Longrightarrow> post_bookings4 c e b d = respond 400 (Error ''All booking fields are required.'') d []"
  by (simp add: post_bookings4_def Let_def)

lemma post_bookings4_valid:
  "truthy (body_field b ''service'') \<Longrightarrow> truthy (body_field b ''duration'')
   \<Longrightarrow> truthy (body_field b ''price'') \<Longrightarrow> truthy (body_field b ''name'')
   \<Longrightarrow> truthy (body_field b ''phone'') \<Longrightarrow> truthy (body_field b ''datetime'')
   \<Longrightarrow> post_bookings4 c e b d =
       (let q = INSERT_bookings4 (body_field b ''service'') (body_field b ''duration'')
                  (body_field b ''price'') (body_field b ''name'') (body_field b ''phone'')
                  (body_field b ''datetime'')
        in case pool_query c e q d of
             (Inr r, d') \<Rightarrow> respond 201 (first_row (rows r)) d' [q]
           | (Inl m, d') \<Rightarrow>
               respond 500 (Error ''Failed to add booking to the database.'') d' [q])"
  by (simp add: post_bookings4_def Let_def)

lemma massage_post:
  "post_bookings4 sample_cfg ok_call massage_body init_db
   = respond 201 (Row (BookingRow massage_row)) massage_db
       [INSERT_bookings4 (JStr ''Massage'') (JStr ''60m'') (JNum (Fin 50)) (JStr ''Ana'')
          (JStr ''555-1234'') (JStr ''2025-01-01T10:00:00Z'')]"
  by (simp add: post_bookings4_valid massage_fields pool_query_ok ok_call_def init_db_def
      massage_row_def massage_db_def first_row_def numeral_2_eq_2 Let_def sql_value_def)

lemma massage_reachable: "reachable c massage_db"
proof -
  have "reachable c (store (handle c ok_call (POST_bookings4 massage_body) init_db))"
    by (rule reachable_step [OF reachable_init])
  moreover have "store (handle c ok_call (POST_bookings4 massage_body) init_db) = massage_db"
    by (simp add: post_bookings4_valid massage_fields pool_query_ok ok_call_def init_db_def
      massage_row_def massage_db_def first_row_def numeral_2_eq_2 store_respond Let_def
      sql_value_def)
  ultimately show ?thesis by simp
qed

lemma sample_matches_1:
  "matches sample_cfg (JStr ''1'') 1" "matches sample_cfg (JNum (Fin 1)) 1"
  "matches sample_cfg (JStr ''1'') (Suc 0)" "matches sample_cfg (JNum (Fin 1)) (Suc 0)"
  by (simp_all add: matches_def sample_cfg_def digit_val_def)

text \<open>
  C4. Creating a booking: when one of \<open>service\<close>, \<open>duration\<close>, \<open>price\<close>, \<open>name\<close>,
  \<open>phone\<close>, \<open>datetime\<close> is missing or falsy, the response is 400, no statement is
  sent to the store and the store is as before. Otherwise, when the store raises no
  error, one row is inserted and the response is 201 with that row: its id is the generated
  one, its six fields are the request's and its \<open>payment_status\<close> is \<open>"pending"\<close>.
\<close>

theorem create_booking:
  assumes r: "r = handle c e (POST_bookings4 b) d"
    and row: "row = \<lparr>booking_id = bookings4_seq d, service = body_field b ''service'',
        duration = body_field b ''duration'', price = body_field b ''price'',
        name = body_field b ''name'', phone = body_field b ''phone'',
        datetime = body_field b ''datetime'', payment_status = ''pending'',
        booking_time = now e\<rparr>"
  shows "(\<not> truthy (body_field b ''service'') \<or> \<not> truthy (body_field b ''duration'')
          \<or> \<not> truthy (body_field b ''price'') \<or> \<not> truthy (body_field b ''name'')
          \<or> \<not> truthy (body_field b ''phone'') \<or> \<not> truthy (body_field b ''datetime'')
         \<longrightarrow> sent r = Some (400, Error ''All booking fields are required.'')
             \<and> issued r = [] \<and> store r = d)
       \<and> (truthy (body_field b ''service'') \<and> truthy (body_field b ''duration'')
          \<and> truthy (body_field b ''price'') \<and> truthy (body_field b ''name'')
          \<and> truthy (body_field b ''phone'') \<and> truthy (body_field b ''datetime'')
          \<and> fault e = None
         \<longrightarrow> sent r = Some (201, Row (BookingRow row))
             \<and> store r = d\<lparr>bookings4 := bookings4 d @ [row],
                            bookings4_seq := Suc (bookings4_seq d)\<rparr>
             \<and> payment_status row = ''pending'')"
proof (intro conjI impI)
  assume "\<not> truthy (body_field b ''service'') \<or> \<not> truthy (body_field b ''duration'')
          \<or> \<not> truthy (body_field b ''price'') \<or> \<not> truthy (body_field b ''name'')
          \<or> \<not> truthy (body_field b ''phone'') \<or> \<not> truthy (body_field b ''datetime'')"
  then have eq: "r = respond 400 (Error ''All booking fields are required.'') d []"
    using post_bookings4_400 [of b c e d] r by simp
  show "sent r = Some (400, Error ''All booking fields are required.'')"
    by (simp add: eq sent_respond)
  show "issued r = []" by (simp add: eq issued_respond)
  show "store r = d" by (simp add: eq store_respond)
next
  assume v: "truthy (body_field b ''service'') \<and> truthy (body_field b ''duration'')
          \<and> truthy (body_field b ''price'') \<and> truthy (body_field b ''name'')
          \<and> truthy (body_field b ''phone'') \<and> truthy (body_field b ''datetime'')
          \<and> fault e = None"
  then have eq: "r = respond 201 (Row (BookingRow row))
      (d\<lparr>bookings4 := bookings4 d @ [row], bookings4_seq := Suc (bookings4_seq d)\<rparr>)
      [INSERT_bookings4 (body_field b ''service'') (body_field b ''duration'')
                  (body_field b ''price'') (body_field b ''name'') (body_field b ''phone'')
                  (body_field b ''datetime'')]"
    using r by (simp add: post_bookings4_valid pool_query_ok Let_def first_row_def row
        sql_value_truthy)
  show "sent r = Some (201, Row (BookingRow row))"
    by (simp add: eq sent_respond)
  show "store r = d\<lparr>bookings4 := bookings4 d @ [row], bookings4_seq := Suc (bookings4_seq d)\<rparr>"
    by (simp add: eq store_respond)
  show "payment_status row = ''pending''" by (simp add: row)
qed

theorem create_booking_witness:
  "truthy (body_field massage_body ''service'') \<and> truthy (body_field massage_body ''duration'')
   \<and> truthy (body_field massage_body ''price'') \<and> truthy (body_field massage_body ''name'')
   \<and> truthy (body_field massage_body ''phone'') \<and> truthy (body_field massage_body ''datetime'')
   \<and> fault ok_call = None
   \<and> sent (handle sample_cfg ok_call (POST_bookings4 massage_body) init_db)
       = Some (201, Row (BookingRow massage_row))
   \<and> store (handle sample_cfg ok_call (POST_bookings4 massage_body) init_db) = massage_db
   \<and> \<not> truthy (body_field unpriced_body ''price'')
   \<and> sent (handle sample_cfg ok_call (POST_bookings4 unpriced_body) init_db)
       = Some (400, Error ''All booking fields are required.'')"
  using create_booking [where c = sample_cfg and e = ok_call and b = massage_body and d = init_db,
      OF refl refl]
    create_booking [where c = sample_cfg and e = ok_call
      and b = unpriced_body and d = init_db, OF refl refl]
  by (simp add: massage_fields unpriced_price massage_row_def massage_db_def ok_call_def init_db_def
      numeral_2_eq_2)

section \<open>Confirming a payment\<close>


lemma filter_none: "(\<forall>x \<in> set xs. \<not> P x) \<Longrightarrow> filter P xs = []"
  by (induction xs) auto

lemma filter_some: "(\<exists>x \<in> set xs. P x) \<Longrightarrow> length (filter P xs) \<noteq> 0"
  by (induction xs) auto








section \<open>Deleting a booking\<close>

lemma delete_ok:
  assumes "fault e = None"
  shows "delete_bookings4 c e i d =
     (let q = DELETE_bookings4 (JStr i);
          d' = d\<lparr>bookings4 := filter (\<lambda>x. \<not> matches c (JStr i) (booking_id x)) (bookings4 d)\<rparr>
      in if length (filter (\<lambda>x. matches c (JStr i) (booking_id x)) (bookings4 d)) = 0
         then respond 404 (Error (''Booking with ID '' @ i @ '' not found.'')) d' [q]
         else respond 200 (Message (''Booking with ID '' @ i @ '' deleted successfully.'')) d' [q])"
  using assms by (simp add: delete_bookings4_def Let_def pool_query_ok)

lemma delete_none:
  "(\<forall>x \<in> set (bookings4 d). \<not> matches c p (booking_id x))
   \<Longrightarrow> d\<lparr>bookings4 := filter (\<lambda>x. \<not> matches c p (booking_id x)) (bookings4 d)\<rparr> = d"
  by simp

lemma get_ok:
  assumes "fault e = None"
  shows "get_bookings4 c e d =
     respond 200 (Rows (map BookingRow (sort_key (\<lambda>r. - ts_of c (datetime r)) (bookings4 d)))) d
       [SELECT_bookings4]"
  using assms by (simp add: get_bookings4_def Let_def pool_query_ok)

lemma distinct_ids_filter:
  "distinct (map booking_id xs) \<Longrightarrow> length (filter (\<lambda>x. matches c p (booking_id x)) xs) \<le> 1"
proof (induction xs)
  case Nil
  then show ?case by simp
next
  case (Cons a xs)
  show ?case
  proof (cases "matches c p (booking_id a)")
    case True
    then have "\<forall>x \<in> set xs. \<not> matches c p (booking_id x)"
      using Cons.prems by (auto simp: matches_def)
    then have "filter (\<lambda>x. matches c p (booking_id x)) xs = []"
      by (rule filter_none)
    with True show ?thesis by simp
  next
    case False
    with Cons show ?thesis by simp
  qed
qed

text \<open>
  C6. Deleting a booking, the store raising no error: when no row has the id of the path,
  the response is 404 with a message naming the id and the store is unchanged; when a row
  has it, the response is 200 with a success message and the rows with that id are gone
  (from a store with distinct ids, exactly one row), a following \<open>GET /bookings4\<close> lists
  no row with that id, and a second delete of the same id answers 404 and changes nothing.
\<close>

theorem delete_booking:
  assumes r: "r = handle c e (DELETE_bookings4_id i) d"
    and r': "r' = handle c e' (DELETE_bookings4_id i) (store r)"
    and g: "g = handle c e'' GET_bookings4 (store r)"
  shows "(fault e = None \<and> (\<forall>x \<in> set (bookings4 d). \<not> matches c (JStr i) (booking_id x))
          \<longrightarrow> sent r = Some (404, Error (''Booking with ID '' @ i @ '' not found.''))
              \<and> store r = d)
       \<and> (fault e = None \<and> (\<exists>x \<in> set (bookings4 d). matches c (JStr i) (booking_id x))
          \<longrightarrow> sent r = Some (200, Message (''Booking with ID '' @ i @ '' deleted successfully.''))
              \<and> store r = d\<lparr>bookings4 :=
                    filter (\<lambda>x. \<not> matches c (JStr i) (booking_id x)) (bookings4 d)\<rparr>
              \<and> (ids_fresh d \<longrightarrow> Suc (length (bookings4 (store r))) = length (bookings4 d))
              \<and> (fault e'' = None
                  \<longrightarrow> (\<exists>rs. sent g = Some (200, Rows rs)
                        \<and> (\<forall>x. BookingRow x \<in> set rs
                               \<longrightarrow> \<not> matches c (JStr i) (booking_id x))))
              \<and> (fault e' = None
                  \<longrightarrow> sent r' = Some (404, Error (''Booking with ID '' @ i @ '' not found.''))
                      \<and> store r' = store r))"
proof (intro conjI impI)
  assume "fault e = None \<and> (\<forall>x \<in> set (bookings4 d). \<not> matches c (JStr i) (booking_id x))"
  then have f: "fault e = None"
    and n: "\<forall>x \<in> set (bookings4 d). \<not> matches c (JStr i) (booking_id x)"
    by simp_all
  have z: "filter (\<lambda>x. matches c (JStr i) (booking_id x)) (bookings4 d) = []"
    using n by (rule filter_none)
  show "sent r = Some (404, Error (''Booking with ID '' @ i @ '' not found.''))"
    using r z by (simp add: delete_ok [OF f] Let_def sent_respond)
  show "store r = d"
    using r z delete_none [OF n] by (simp add: delete_ok [OF f] Let_def store_respond)
next
  assume "fault e = None \<and> (\<exists>x \<in> set (bookings4 d). matches c (JStr i) (booking_id x))"
  then have f: "fault e = None"
    and s: "\<exists>x \<in> set (bookings4 d). matches c (JStr i) (booking_id x)"
    by simp_all
  have z: "length (filter (\<lambda>x. matches c (JStr i) (booking_id x)) (bookings4 d)) \<noteq> 0"
    using s by (rule filter_some)
  have eq: "r = respond 200 (Message (''Booking with ID '' @ i @ '' deleted successfully.''))
      (d\<lparr>bookings4 := filter (\<lambda>x. \<not> matches c (JStr i) (booking_id x)) (bookings4 d)\<rparr>)
      [DELETE_bookings4 (JStr i)]"
    using r z by (simp add: delete_ok [OF f] Let_def)
  show "sent r = Some (200, Message (''Booking with ID '' @ i @ '' deleted successfully.''))"
    by (simp add: eq sent_respond)
  show st: "store r = d\<lparr>bookings4 :=
                filter (\<lambda>x. \<not> matches c (JStr i) (booking_id x)) (bookings4 d)\<rparr>"
    by (simp add: eq store_respond)
  have gone: "\<forall>x \<in> set (bookings4 (store r)). \<not> matches c (JStr i) (booking_id x)"
    unfolding st by simp
  {
    assume "ids_fresh d"
    then have "distinct (map booking_id (bookings4 d))"
      by (simp add: ids_fresh_def)
    then have "length (filter (\<lambda>x. matches c (JStr i) (booking_id x)) (bookings4 d)) \<le> 1"
      by (rule distinct_ids_filter)
    with z have one: "length (filter (\<lambda>x. matches c (JStr i) (booking_id x)) (bookings4 d)) = 1"
      by linarith
    have "length (bookings4 d)
          = length (filter (\<lambda>x. matches c (JStr i) (booking_id x)) (bookings4 d))
            + length (filter (\<lambda>x. \<not> matches c (JStr i) (booking_id x)) (bookings4 d))"
      by (rule sum_length_filter_compl [symmetric])
    with one show "Suc (length (bookings4 (store r))) = length (bookings4 d)"
      unfolding st by simp
  }
  {
    assume f'': "fault e'' = None"
    let ?rs = "map BookingRow (sort_key (\<lambda>r. - ts_of c (datetime r)) (bookings4 (store r)))"
    have "sent g = Some (200, Rows ?rs)"
      using g by (simp add: get_ok [OF f''] sent_respond)
    moreover have "\<forall>x. BookingRow x \<in> set ?rs \<longrightarrow> \<not> matches c (JStr i) (booking_id x)"
      using gone by auto
    ultimately show "\<exists>rs. sent g = Some (200, Rows rs)
        \<and> (\<forall>x. BookingRow x \<in> set rs \<longrightarrow> \<not> matches c (JStr i) (booking_id x))"
      by blast
  }
  {
    assume f': "fault e' = None"
    have z': "filter (\<lambda>x. matches c (JStr i) (booking_id x)) (bookings4 (store r)) = []"
      using gone by (rule filter_none)
    show "sent r' = Some (404, Error (''Booking with ID '' @ i @ '' not found.''))"
      using r' z' by (simp add: delete_ok [OF f'] Let_def sent_respond)
    show "store r' = store r"
      using r' z' delete_none [OF gone] by (simp add: delete_ok [OF f'] Let_def store_respond)
  }
qed

theorem delete_booking_witness:
  "fault ok_call = None
   \<and> (\<exists>x \<in> set (bookings4 massage_db). matches sample_cfg (JStr ''1'') (booking_id x))
   \<and> sent (handle sample_cfg ok_call (DELETE_bookings4_id ''1'') massage_db)
       = Some (200, Message ''Booking with ID 1 deleted successfully.'')
   \<and> store (handle sample_cfg ok_call (DELETE_bookings4_id ''1'') massage_db)
       = massage_db\<lparr>bookings4 := []\<rparr>
   \<and> sent (handle sample_cfg ok_call (DELETE_bookings4_id ''1'')
        (store (handle sample_cfg ok_call (DELETE_bookings4_id ''1'') massage_db)))
       = Some (404, Error ''Booking with ID 1 not found.'')"
proof -
  have h: "fault ok_call = None
     \<and> (\<exists>x \<in> set (bookings4 massage_db). matches sample_cfg (JStr ''1'') (booking_id x))"
    by (simp add: ok_call_def massage_db_def massage_row_def sample_matches_1)
  note t = delete_booking [where c = sample_cfg and e = ok_call and e' = ok_call
      and e'' = ok_call and i = "''1''" and d = massage_db, OF refl refl refl]
  from t h have a: "sent (handle sample_cfg ok_call (DELETE_bookings4_id ''1'') massage_db)
       = Some (200, Message ''Booking with ID 1 deleted successfully.'')"
    and b: "store (handle sample_cfg ok_call (DELETE_bookings4_id ''1'') massage_db)
       = massage_db\<lparr>bookings4 :=
            filter (\<lambda>x. \<not> matches sample_cfg (JStr ''1'') (booking_id x)) (bookings4 massage_db)\<rparr>"
    by simp_all
  from t h have "fault ok_call = None \<longrightarrow>
      sent (handle sample_cfg ok_call (DELETE_bookings4_id ''1'')
        (store (handle sample_cfg ok_call (DELETE_bookings4_id ''1'') massage_db)))
       = Some (404, Error (''Booking with ID '' @ ''1'' @ '' not found.''))"
    by blast
  with h have c: "sent (handle sample_cfg ok_call (DELETE_bookings4_id ''1'')
        (store (handle sample_cfg ok_call (DELETE_bookings4_id ''1'') massage_db)))
       = Some (404, Error ''Booking with ID 1 not found.'')"
    by simp
  have "filter (\<lambda>x. \<not> matches sample_cfg (JStr ''1'') (booking_id x)) (bookings4 massage_db) = []"
    by (simp add: massage_db_def massage_row_def sample_matches_1)
  with a b c h show ?thesis
    by simp
qed

section \<open>The stores the service reaches\<close>

lemma update_keeps_ids:
  "map booking_id (map (\<lambda>r. if P r then r\<lparr>payment_status := s\<rparr> else r) xs) = map booking_id xs"
  by (induction xs) auto

lemma exec_ids_fresh: "ids_fresh d \<Longrightarrow> ids_fresh (snd (exec c t q d))"
proof (cases q)
  case (INSERT_bookings4 p1 p2 p3 p4 p5 p6)
  assume "ids_fresh d"
  then show ?thesis using INSERT_bookings4
    by (auto simp: ids_fresh_def Let_def less_Suc_eq)
next
  case (DELETE_bookings4 p)
  assume "ids_fresh d"
  then show ?thesis using DELETE_bookings4
    by (auto simp: ids_fresh_def Let_def distinct_map_filter)
next
  case (UPDATE_bookings4 s p)
  assume f: "ids_fresh d"
  let ?g = "\<lambda>r. if matches c p (booking_id r) then r\<lparr>payment_status := s\<rparr> else r"
  have "distinct (map booking_id (map ?g (bookings4 d)))"
    using f unfolding update_keeps_ids by (simp add: ids_fresh_def)
  moreover have "\<forall>r \<in> set (map ?g (bookings4 d)). booking_id r < bookings4_seq d"
    using f by (auto simp: ids_fresh_def)
  ultimately show ?thesis using UPDATE_bookings4
    by (simp add: ids_fresh_def Let_def del: map_map)
qed (simp_all add: ids_fresh_def Let_def)

lemma exec_status_ok:
  "status_ok d \<Longrightarrow> (\<And>s p. q = UPDATE_bookings4 s p \<Longrightarrow> s = ''completed'')
   \<Longrightarrow> status_ok (snd (exec c t q d))"
  by (cases q) (auto simp: status_ok_def Let_def)

lemma exec_row_step:
  assumes "ids_fresh d" "x \<in> set (bookings4 d)" "y \<in> set (bookings4 (snd (exec c t q d)))"
    "booking_id y = booking_id x"
  shows "y = x \<or> (\<exists>s p. q = UPDATE_bookings4 s p \<and> y = x\<lparr>payment_status := s\<rparr>)"
proof (cases q)
  case (INSERT_bookings4 p1 p2 p3 p4 p5 p6)
  with assms show ?thesis
    by (auto simp: ids_fresh_def Let_def distinct_map inj_on_def)
next
  case (DELETE_bookings4 p)
  with assms show ?thesis
    by (auto simp: ids_fresh_def Let_def distinct_map inj_on_def)
next
  case (UPDATE_bookings4 s p)
  with assms show ?thesis
    by (auto simp: ids_fresh_def Let_def distinct_map inj_on_def split: if_splits)
qed (use assms in \<open>auto simp: ids_fresh_def Let_def distinct_map inj_on_def\<close>)

lemma exec_new_row:
  assumes "y \<in> set (bookings4 (snd (exec c t q d)))"
    "\<forall>x \<in> set (bookings4 d). booking_id x \<noteq> booking_id y"
  shows "(\<exists>p1 p2 p3 p4 p5 p6. q = INSERT_bookings4 p1 p2 p3 p4 p5 p6)
         \<and> payment_status y = ''pending'' \<and> booking_id y = bookings4_seq d"
  using assms by (cases q) (auto simp: Let_def split: if_splits)

lemma handle_store:
  "store (handle c e rq d) = d
   \<or> (\<exists>q \<in> set (issued (handle c e rq d)). store (handle c e rq d) = snd (exec c (now e) q d))"
proof (cases "fault e")
  case None
  then show ?thesis
    by (cases rq)
      (simp_all add: get_bookings4_def post_bookings4_def delete_bookings4_def
        post_payments_initiate_def post_payments_confirm_def post_testimonials_def
        get_testimonials_def delete_testimonials_def pool_query_ok respond_def Let_def
        del: exec.simps split: sum.splits)
next
  case (Some m)
  then show ?thesis
    by (cases rq)
      (simp_all add: get_bookings4_def post_bookings4_def delete_bookings4_def
        post_payments_initiate_def post_payments_confirm_def post_testimonials_def
        get_testimonials_def delete_testimonials_def pool_query_fault respond_def Let_def
        del: exec.simps split: sum.splits)
qed

lemma handle_issued_update:
  "UPDATE_bookings4 s p \<in> set (issued (handle c e rq d))
   \<Longrightarrow> s = ''completed'' \<and> (\<exists>b. rq = POST_payments_confirm b)"
  by (cases rq; cases "fault e")
    (auto simp add: get_bookings4_def post_bookings4_def delete_bookings4_def
        post_payments_initiate_def post_payments_confirm_def post_testimonials_def
        get_testimonials_def delete_testimonials_def pool_query_ok pool_query_fault
        respond_def Let_def
        simp del: exec.simps split: if_splits sum.splits)

lemma handle_issued_insert:
  "INSERT_bookings4 p1 p2 p3 p4 p5 p6 \<in> set (issued (handle c e rq d))
   \<Longrightarrow> \<exists>b. rq = POST_bookings4 b"
  by (cases rq; cases "fault e")
    (auto simp add: get_bookings4_def post_bookings4_def delete_bookings4_def
        post_payments_initiate_def post_payments_confirm_def post_testimonials_def
        get_testimonials_def delete_testimonials_def pool_query_ok pool_query_fault
        respond_def Let_def
        simp del: exec.simps split: if_splits sum.splits)

lemma init_inv: "ids_fresh init_db \<and> status_ok init_db"
  by (simp add: ids_fresh_def status_ok_def init_db_def)

lemma handle_inv:
  assumes "ids_fresh d \<and> status_ok d"
  shows "ids_fresh (store (handle c e rq d)) \<and> status_ok (store (handle c e rq d))"
proof -
  consider "store (handle c e rq d) = d"
    | q where "q \<in> set (issued (handle c e rq d))"
        "store (handle c e rq d) = snd (exec c (now e) q d)"
    using handle_store [of c e rq d] by blast
  then show ?thesis
  proof cases
    case 1
    with assms show ?thesis by simp
  next
    case 2
    have "s = ''completed''" if "q = UPDATE_bookings4 s p" for s p
      using that 2(1) handle_issued_update [of s p c e rq d] by simp
    then have "status_ok (snd (exec c (now e) q d))"
      using assms exec_status_ok [of d q c "now e"] by blast
    moreover have "ids_fresh (snd (exec c (now e) q d))"
      using assms exec_ids_fresh by blast
    ultimately show ?thesis using 2(2) by simp
  qed
qed

lemma reachable_inv: "reachable c d \<Longrightarrow> ids_fresh d \<and> status_ok d"
proof (induction rule: reachable.induct)
  case reachable_init
  show ?case by (rule init_inv)
next
  case (reachable_step d e rq)
  then show ?case by (intro handle_inv)
qed

text \<open>
  C2. In every store state the service reaches from empty tables, each booking row has
  \<open>payment_status\<close> \<open>"pending"\<close> or \<open>"completed"\<close>; a created row is \<open>"pending"\<close>,
  and a row that appears in a step appears by a booking creation; and for a row present
  before and after any one request, the status is the same unless the request is a payment
  confirmation, the status before is \<open>"pending"\<close> and the status after is
  \<open>"completed"\<close>: it never goes back.
\<close>

theorem payment_status_transitions:
  assumes re: "reachable c d" and r: "r = handle c e rq d"
  shows "status_ok d
       \<and> (\<forall>row. sent r = Some (201, Row (BookingRow row)) \<longrightarrow> payment_status row = ''pending'')
       \<and> (\<forall>y \<in> set (bookings4 (store r)).
            (\<forall>x \<in> set (bookings4 d). booking_id x \<noteq> booking_id y)
            \<longrightarrow> (\<exists>b. rq = POST_bookings4 b) \<and> payment_status y = ''pending'')
       \<and> (\<forall>x \<in> set (bookings4 d). \<forall>y \<in> set (bookings4 (store r)).
            booking_id y = booking_id x
            \<longrightarrow> payment_status y = payment_status x
               \<or> ((\<exists>b. rq = POST_payments_confirm b) \<and> payment_status x = ''pending''
                   \<and> payment_status y = ''completed''))"
proof -
  have inv: "ids_fresh d \<and> status_ok d"
    using re by (rule reachable_inv)
  then have S: "status_ok d" ..
  have cases: "store r = d
      \<or> (\<exists>q \<in> set (issued r). store r = snd (exec c (now e) q d))"
    unfolding r by (rule handle_store)
  have A: "\<forall>row. sent r = Some (201, Row (BookingRow row)) \<longrightarrow> payment_status row = ''pending''"
  proof (intro allI impI)
    fix row assume "sent r = Some (201, Row (BookingRow row))"
    then show "payment_status row = ''pending''"
      unfolding r
      by (cases rq; cases "fault e")
        (auto simp add: get_bookings4_def post_bookings4_def delete_bookings4_def
          post_payments_initiate_def post_payments_confirm_def post_testimonials_def
          get_testimonials_def delete_testimonials_def pool_query_ok pool_query_fault
          sent_def respond_def Let_def first_row_def lookup_qr
          split: if_splits sum.splits)
  qed
  have B: "\<forall>y \<in> set (bookings4 (store r)).
            (\<forall>x \<in> set (bookings4 d). booking_id x \<noteq> booking_id y)
            \<longrightarrow> (\<exists>b. rq = POST_bookings4 b) \<and> payment_status y = ''pending''"
  proof (intro ballI impI)
    fix y assume y: "y \<in> set (bookings4 (store r))"
      and new: "\<forall>x \<in> set (bookings4 d). booking_id x \<noteq> booking_id y"
    from new y have "store r \<noteq> d" by auto
    with cases obtain q where q: "q \<in> set (issued r)" "store r = snd (exec c (now e) q d)"
      by blast
    from exec_new_row [OF y [unfolded q(2)] new]
    obtain p1 p2 p3 p4 p5 p6 where i: "q = INSERT_bookings4 p1 p2 p3 p4 p5 p6"
      and p: "payment_status y = ''pending''"
      by blast
    from q(1) i have "\<exists>b. rq = POST_bookings4 b"
      unfolding r using handle_issued_insert by blast
    with p show "(\<exists>b. rq = POST_bookings4 b) \<and> payment_status y = ''pending''"
      by simp
  qed
  have C: "\<forall>x \<in> set (bookings4 d). \<forall>y \<in> set (bookings4 (store r)).
            booking_id y = booking_id x
            \<longrightarrow> payment_status y = payment_status x
               \<or> ((\<exists>b. rq = POST_payments_confirm b) \<and> payment_status x = ''pending''
                   \<and> payment_status y = ''completed'')"
  proof (intro ballI impI)
    fix x y assume x: "x \<in> set (bookings4 d)" and y: "y \<in> set (bookings4 (store r))"
      and same: "booking_id y = booking_id x"
    show "payment_status y = payment_status x
          \<or> ((\<exists>b. rq = POST_payments_confirm b) \<and> payment_status x = ''pending''
              \<and> payment_status y = ''completed'')"
    proof (cases "payment_status y = payment_status x")
      case True
      then show ?thesis ..
    next
      case False
      have fresh: "ids_fresh d" using inv ..
      have "store r \<noteq> d"
      proof
        assume "store r = d"
        with y have "y \<in> set (bookings4 d)" by simp
        with x same fresh have "y = x"
          by (auto simp: ids_fresh_def distinct_map inj_on_def)
        with False show False by simp
      qed
      with cases obtain q where q: "q \<in> set (issued r)" "store r = snd (exec c (now e) q d)"
        by blast
      from exec_row_step [OF fresh x y [unfolded q(2)] same] False
      obtain s p where u: "q = UPDATE_bookings4 s p" and yx: "y = x\<lparr>payment_status := s\<rparr>"
        by auto
      from q(1) u have s: "s = ''completed''" and rq: "\<exists>b. rq = POST_payments_confirm b"
        unfolding r using handle_issued_update by blast+
      from inv x have "payment_status x = ''pending'' \<or> payment_status x = ''completed''"
        by (simp add: status_ok_def)
      with False yx s have "payment_status x = ''pending''" by auto
      with rq yx s show ?thesis by simp
    qed
  qed
  show ?thesis
    by (rule conjI [OF S conjI [OF A conjI [OF B C]]])
qed

theorem payment_status_transitions_witness:
  "reachable sample_cfg massage_db
   \<and> status_ok massage_db
   \<and> massage_row \<in> set (bookings4 massage_db)
   \<and> massage_row\<lparr>payment_status := ''completed''\<rparr>
       \<in> set (bookings4 (store (handle sample_cfg ok_call
                  (POST_payments_confirm [''bookingId'' \<mapsto> JNum (Fin 1)]) massage_db)))
   \<and> payment_status massage_row = ''pending''"
proof -
  let ?rq = "POST_payments_confirm [''bookingId'' \<mapsto> JNum (Fin 1)]"
  have re: "reachable sample_cfg massage_db"
    by (rule massage_reachable)
  note t = payment_status_transitions [OF re refl, of ok_call ?rq]
  have x: "massage_row \<in> set (bookings4 massage_db)"
    by (simp add: massage_db_def)
  have y: "massage_row\<lparr>payment_status := ''completed''\<rparr>
       \<in> set (bookings4 (store (handle sample_cfg ok_call ?rq massage_db)))"
    by (simp add: post_payments_confirm_def body_field_def pool_query_ok ok_call_def Let_def
        massage_db_def massage_row_def sample_matches_1 store_respond)
  have "booking_id (massage_row\<lparr>payment_status := ''completed''\<rparr>) = booking_id massage_row"
    by simp
  with t x y have "payment_status (massage_row\<lparr>payment_status := ''completed''\<rparr>)
                   = payment_status massage_row
      \<or> ((\<exists>b. ?rq = POST_payments_confirm b) \<and> payment_status massage_row = ''pending''
          \<and> payment_status (massage_row\<lparr>payment_status := ''completed''\<rparr>) = ''completed'')"
    by blast
  then have "payment_status massage_row = ''pending''"
    by (simp add: massage_row_def)
  with re t x y show ?thesis by blast
qed

section \<open>Listing the bookings\<close>

lemma count_list_BookingRow: "count_list (map BookingRow xs) (BookingRow x) = count_list xs x"
  by (induction xs) auto

lemma count_list_sort_key: "count_list (sort_key f xs) x = count_list xs x"
proof -
  have "count (mset (sort_key f xs)) x = count (mset xs) x"
    by simp
  then show ?thesis by (simp only: count_mset)
qed

lemma desc_sort_key:
  "sorted_wrt (\<lambda>x y. (f y :: int) \<le> f x) (sort_key (\<lambda>r. - f r) xs)"
proof -
  have "sorted (map (\<lambda>r. - f r) (sort_key (\<lambda>r. - f r) xs))"
    by (rule sorted_sort_key)
  then show ?thesis by (simp add: sorted_map)
qed

lemma post_201:
  assumes "sent (post_bookings4 c e b d) = Some (201, Row (BookingRow row))"
  shows "store (post_bookings4 c e b d)
           = d\<lparr>bookings4 := bookings4 d @ [row], bookings4_seq := Suc (bookings4_seq d)\<rparr>
         \<and> booking_id row = bookings4_seq d"
  using assms
  by (cases "fault e")
    (auto simp add: post_bookings4_def pool_query_ok pool_query_fault sent_def respond_def
      Let_def first_row_def split: if_splits)

text \<open>
  C7. For every store state, \<open>GET /bookings4\<close> (the store raising no error) answers 200
  with all booking rows, each as often as the table holds it, ordered by \<open>datetime\<close>
  descending, and leaves the store unchanged. After a booking creation that answered 201 in
  a reachable state, a following \<open>GET /bookings4\<close> lists the created row exactly once,
  and no other row with its id.
\<close>

theorem list_bookings:
  assumes g: "g = handle c e GET_bookings4 d"
    and r: "r = handle c e' (POST_bookings4 b) d"
    and g': "g' = handle c e'' GET_bookings4 (store r)"
  shows "(fault e = None
          \<longrightarrow> (\<exists>rs. sent g = Some (200, Rows (map BookingRow rs))
                \<and> mset rs = mset (bookings4 d)
                \<and> sorted_wrt (\<lambda>x y. ts_of c (datetime y) \<le> ts_of c (datetime x)) rs)
              \<and> store g = d)
       \<and> (reachable c d \<and> sent r = Some (201, Row (BookingRow row)) \<and> fault e'' = None
          \<longrightarrow> (\<exists>rs. sent g' = Some (200, Rows (map BookingRow rs))
                \<and> count_list rs row = 1
                \<and> length (filter (\<lambda>x. booking_id x = booking_id row) rs) = 1))"
proof (rule conjI; rule impI)
  assume f: "fault e = None"
  let ?rs = "sort_key (\<lambda>r. - ts_of c (datetime r)) (bookings4 d)"
  have "sent g = Some (200, Rows (map BookingRow ?rs))"
    using g by (simp add: get_ok [OF f] sent_respond)
  moreover have "mset ?rs = mset (bookings4 d)"
    by simp
  moreover have "sorted_wrt (\<lambda>x y. ts_of c (datetime y) \<le> ts_of c (datetime x)) ?rs"
    by (rule desc_sort_key)
  moreover have "store g = d"
    using g by (simp add: get_ok [OF f] store_respond)
  ultimately show "(\<exists>rs. sent g = Some (200, Rows (map BookingRow rs))
                \<and> mset rs = mset (bookings4 d)
                \<and> sorted_wrt (\<lambda>x y. ts_of c (datetime y) \<le> ts_of c (datetime x)) rs)
              \<and> store g = d"
    by blast
next
  assume a: "reachable c d \<and> sent r = Some (201, Row (BookingRow row)) \<and> fault e'' = None"
  then have fresh: "ids_fresh d" using reachable_inv by blast
  from a have f'': "fault e'' = None" by simp
  from a r have "sent (post_bookings4 c e' b d) = Some (201, Row (BookingRow row))"
    by simp
  from post_201 [OF this] r
  have st: "bookings4 (store r) = bookings4 d @ [row]" and rid: "booking_id row = bookings4_seq d"
    by simp_all
  let ?rs = "sort_key (\<lambda>r. - ts_of c (datetime r)) (bookings4 (store r))"
  have new: "\<forall>x \<in> set (bookings4 d). booking_id x \<noteq> booking_id row"
    using fresh rid by (auto simp: ids_fresh_def)
  then have "row \<notin> set (bookings4 d)" by blast
  then have c0: "count_list (bookings4 d) row = 0"
    by (simp add: count_list_0_iff)
  have "count_list ?rs row = count_list (bookings4 d @ [row]) row"
    unfolding st by (rule count_list_sort_key)
  with c0 have once: "count_list ?rs row = 1" by simp
  have "mset (filter (\<lambda>x. booking_id x = booking_id row) ?rs)
        = mset (filter (\<lambda>x. booking_id x = booking_id row) (bookings4 d @ [row]))"
    unfolding st by simp
  moreover have "filter (\<lambda>x. booking_id x = booking_id row) (bookings4 d) = []"
    using new by (intro filter_none) simp
  ultimately have "mset (filter (\<lambda>x. booking_id x = booking_id row) ?rs) = {#row#}"
    by simp
  then have "size (mset (filter (\<lambda>x. booking_id x = booking_id row) ?rs)) = 1"
    by simp
  then have byid: "length (filter (\<lambda>x. booking_id x = booking_id row) ?rs) = 1"
    by (simp only: size_mset)
  have "sent g' = Some (200, Rows (map BookingRow ?rs))"
    using g' by (simp add: get_ok [OF f''] sent_respond)
  with once byid
  show "\<exists>rs. sent g' = Some (200, Rows (map BookingRow rs))
                \<and> count_list rs row = 1
                \<and> length (filter (\<lambda>x. booking_id x = booking_id row) rs) = 1"
    by blast
qed

lemma booking_fields:
  "body_field (booking_body who when) ''service'' = JStr ''Massage''"
  "body_field (booking_body who when) ''duration'' = JStr ''60m''"
  "body_field (booking_body who when) ''price'' = JNum (Fin 50)"
  "body_field (booking_body who when) ''name'' = JStr who"
  "body_field (booking_body who when) ''phone'' = JStr ''555-1234''"
  "body_field (booking_body who when) ''datetime'' = JStr when"
  by (simp_all add: booking_body_def massage_body_def body_field_def)

lemma booking_post:
  "who \<noteq> [] \<Longrightarrow> when \<noteq> [] \<Longrightarrow>
   post_bookings4 c ok_call (booking_body who when) d
   = respond 201 (Row (BookingRow (booking_row (bookings4_seq d) who when)))
       (d\<lparr>bookings4 := bookings4 d @ [booking_row (bookings4_seq d) who when],
          bookings4_seq := Suc (bookings4_seq d)\<rparr>)
       [INSERT_bookings4 (JStr ''Massage'') (JStr ''60m'') (JNum (Fin 50)) (JStr who)
          (JStr ''555-1234'') (JStr when)]"
  by (simp add: post_bookings4_valid booking_fields pool_query_ok ok_call_def booking_row_def
      massage_row_def first_row_def Let_def sql_value_def)

lemma two_reachable: "reachable c two_db"
proof -
  have "reachable c (store (handle c ok_call
          (POST_bookings4 (booking_body ''Ben'' ''2025-03-01T09:00:00Z'')) massage_db))"
    by (rule reachable_step [OF massage_reachable])
  moreover have "store (handle c ok_call
          (POST_bookings4 (booking_body ''Ben'' ''2025-03-01T09:00:00Z'')) massage_db) = two_db"
    by (simp add: booking_post store_respond massage_db_def two_db_def numeral_3_eq_3
        numeral_2_eq_2)
  ultimately show ?thesis by simp
qed

lemma sample_instants:
  "ts_of sample_cfg (JStr ''2025-01-01T10:00:00Z'') = 20250101100000"
  "ts_of sample_cfg (JStr ''2025-03-01T09:00:00Z'') = 20250301090000"
  "ts_of sample_cfg (JStr ''2025-02-01T18:30:00Z'') = 20250201183000"
  by (simp_all add: sample_cfg_def digit_val_def)

theorem list_bookings_witness:
  "fault ok_call = None
   \<and> reachable sample_cfg two_db
   \<and> sent (handle sample_cfg ok_call GET_bookings4 two_db)
       = Some (200, Rows [BookingRow (booking_row 2 ''Ben'' ''2025-03-01T09:00:00Z''),
                          BookingRow massage_row])
   \<and> sent (handle sample_cfg ok_call
             (POST_bookings4 (booking_body ''Cid'' ''2025-02-01T18:30:00Z'')) two_db)
       = Some (201, Row (BookingRow (booking_row 3 ''Cid'' ''2025-02-01T18:30:00Z'')))
   \<and> bookings4 (store (handle sample_cfg ok_call
             (POST_bookings4 (booking_body ''Cid'' ''2025-02-01T18:30:00Z'')) two_db))
       = [massage_row, booking_row 2 ''Ben'' ''2025-03-01T09:00:00Z'',
          booking_row 3 ''Cid'' ''2025-02-01T18:30:00Z'']
   \<and> sent (handle sample_cfg ok_call GET_bookings4
             (store (handle sample_cfg ok_call
                (POST_bookings4 (booking_body ''Cid'' ''2025-02-01T18:30:00Z'')) two_db)))
       = Some (200, Rows [BookingRow (booking_row 2 ''Ben'' ''2025-03-01T09:00:00Z''),
                          BookingRow (booking_row 3 ''Cid'' ''2025-02-01T18:30:00Z''),
                          BookingRow massage_row])
   \<and> count_list [booking_row 2 ''Ben'' ''2025-03-01T09:00:00Z'',
                   booking_row 3 ''Cid'' ''2025-02-01T18:30:00Z'', massage_row]
         (booking_row 3 ''Cid'' ''2025-02-01T18:30:00Z'') = 1
   \<and> sorted_wrt (\<lambda>x y. ts_of sample_cfg (datetime y) \<le> ts_of sample_cfg (datetime x))
         [booking_row 2 ''Ben'' ''2025-03-01T09:00:00Z'',
          booking_row 3 ''Cid'' ''2025-02-01T18:30:00Z'', massage_row]"
proof -
  let ?ben = "booking_row 2 ''Ben'' ''2025-03-01T09:00:00Z''"
  let ?cid = "booking_row 3 ''Cid'' ''2025-02-01T18:30:00Z''"
  let ?post = "POST_bookings4 (booking_body ''Cid'' ''2025-02-01T18:30:00Z'')"
  have h: "fault ok_call = None" by (simp add: ok_call_def)
  have re: "reachable sample_cfg two_db" by (rule two_reachable)
  have p: "sent (handle sample_cfg ok_call ?post two_db) = Some (201, Row (BookingRow ?cid))"
    by (simp add: booking_post sent_respond two_db_def)
  have st: "bookings4 (store (handle sample_cfg ok_call ?post two_db)) = [massage_row, ?ben, ?cid]"
    by (simp add: booking_post store_respond two_db_def)
  have g2: "sent (handle sample_cfg ok_call GET_bookings4 two_db)
      = Some (200, Rows [BookingRow ?ben, BookingRow massage_row])"
    by (simp add: get_ok [OF h] sent_respond two_db_def booking_row_def massage_row_def
        sample_instants)
  let ?three = "\<lparr>bookings4 = [massage_row, ?ben, ?cid], bookings4_seq = 4, testimonials = [],
      testimonials_seq = 1\<rparr>"
  have sd: "store (handle sample_cfg ok_call ?post two_db) = ?three"
    by (simp add: booking_post store_respond two_db_def)
  have "sent (handle sample_cfg ok_call GET_bookings4 ?three)
      = Some (200, Rows (map BookingRow [?ben, ?cid, massage_row]))"
    by (simp add: get_ok [OF h] sent_respond booking_row_def massage_row_def sample_instants)
  then have g3: "sent (handle sample_cfg ok_call GET_bookings4
        (store (handle sample_cfg ok_call ?post two_db)))
      = Some (200, Rows (map BookingRow [?ben, ?cid, massage_row]))"
    by (simp only: sd)
  note t = list_bookings [where c = sample_cfg and e = ok_call and e' = ok_call
      and e'' = ok_call and b = "booking_body ''Cid'' ''2025-02-01T18:30:00Z''" and d = two_db
      and row = ?cid, OF refl refl refl]
  from t h re p obtain rs where rs: "sent (handle sample_cfg ok_call GET_bookings4
        (store (handle sample_cfg ok_call ?post two_db))) = Some (200, Rows (map BookingRow rs))"
    "count_list rs ?cid = 1"
    by blast
  from rs(1) g3 have "map BookingRow rs = map BookingRow [?ben, ?cid, massage_row]"
    by simp
  then have "rs = [?ben, ?cid, massage_row]"
    by (rule map_injective) (simp add: inj_on_def)
  with rs(2) have once: "count_list [?ben, ?cid, massage_row] ?cid = 1"
    by simp
  have srt: "sorted_wrt (\<lambda>x y. ts_of sample_cfg (datetime y) \<le> ts_of sample_cfg (datetime x))
      [?ben, ?cid, massage_row]"
    by (simp add: booking_row_def massage_row_def sample_instants)
  from h re g2 p st g3 once srt show ?thesis
    by simp
qed

section \<open>Creating a testimonial\<close>

lemma review_fields:
  "body_field (review_body rt go) ''reviewerName'' = JStr ''Ana''"
  "body_field (review_body rt go) ''reviewerEmail'' = JStr ''ana@example.com''"
  "body_field (review_body rt go) ''reviewTitle'' = JUndefined"
  "body_field (review_body rt go) ''reviewText'' = JStr ''Very relaxing''"
  "body_field (review_body rt go) ''rating'' = rt"
  "body_field (review_body rt go) ''genuineOpinion'' = go"
  by (simp_all add: review_body_def body_field_def)

lemma testimonial_missing:
  "\<not> truthy (body_field b ''reviewerName'') \<or> \<not> truthy (body_field b ''reviewerEmail'')
     \<or> \<not> truthy (body_field b ''reviewText'') \<or> \<not> truthy (body_field b ''rating'')
     \<or> body_field b ''genuineOpinion'' = JUndefined
   \<Longrightarrow> post_testimonials c e b d
       = respond 400 (Error ''All testimonial fields (except title) are required.'') d []"
  by (simp add: post_testimonials_def Let_def)

lemma testimonial_throw:
  "truthy (body_field b ''reviewerName'') \<Longrightarrow> truthy (body_field b ''reviewerEmail'')
   \<Longrightarrow> truthy (body_field b ''reviewText'') \<Longrightarrow> truthy (body_field b ''rating'')
   \<Longrightarrow> body_field b ''genuineOpinion'' \<noteq> JUndefined
   \<Longrightarrow> to_number c (body_field b ''rating'') = Inl err
   \<Longrightarrow> post_testimonials c e b d
       = \<lparr>outcome = Uncaught err, after_ms = 0, store = d, issued = []\<rparr>"
  by (simp add: post_testimonials_def Let_def)

lemma testimonial_range:
  "truthy (body_field b ''reviewerName'') \<Longrightarrow> truthy (body_field b ''reviewerEmail'')
   \<Longrightarrow> truthy (body_field b ''reviewText'') \<Longrightarrow> truthy (body_field b ''rating'')
   \<Longrightarrow> body_field b ''genuineOpinion'' \<noteq> JUndefined
   \<Longrightarrow> to_number c (body_field b ''rating'') = Inr n
   \<Longrightarrow> js_less n (Fin 1) \<or> js_less (Fin 5) n
   \<Longrightarrow> post_testimonials c e b d
       = respond 400 (Error ''Rating must be between 1 and 5.'') d []"
  by (simp add: post_testimonials_def Let_def)

lemma testimonial_valid:
  "truthy (body_field b ''reviewerName'') \<Longrightarrow> truthy (body_field b ''reviewerEmail'')
   \<Longrightarrow> truthy (body_field b ''reviewText'') \<Longrightarrow> truthy (body_field b ''rating'')
   \<Longrightarrow> body_field b ''genuineOpinion'' \<noteq> JUndefined
   \<Longrightarrow> to_number c (body_field b ''rating'') = Inr n
   \<Longrightarrow> \<not> js_less n (Fin 1) \<Longrightarrow> \<not> js_less (Fin 5) n
   \<Longrightarrow> post_testimonials c e b d =
       (let q = INSERT_testimonials (body_field b ''reviewerName'')
                  (body_field b ''reviewerEmail'') (body_field b ''reviewTitle'')
                  (body_field b ''reviewText'') (body_field b ''rating'')
                  (body_field b ''genuineOpinion'');
            row = \<lparr>testimonial_id = testimonials_seq d,
                  reviewer_name = body_field b ''reviewerName'',
                  reviewer_email = body_field b ''reviewerEmail'',
                  review_title = sql_value (body_field b ''reviewTitle''),
                  review_text = body_field b ''reviewText'',
                  rating = body_field b ''rating'',
                  genuine_opinion = body_field b ''genuineOpinion'',
                  created_at = now e\<rparr>
        in case fault e of
             None \<Rightarrow> respond 201 (Row (TestimonialRow row))
                 (d\<lparr>testimonials := testimonials d @ [row],
                    testimonials_seq := Suc (testimonials_seq d)\<rparr>) [q]
           | Some m \<Rightarrow>
               respond 500 (Error ''Failed to add testimonial to the database.'') d [q])"
  by (cases "fault e")
    (simp_all add: post_testimonials_def Let_def pool_query_ok pool_query_fault first_row_def
      sql_value_truthy sql_value_defined)

text \<open>
  C10. Creating a testimonial: a falsy \<open>reviewerName\<close>, \<open>reviewerEmail\<close>,
  \<open>reviewText\<close> or \<open>rating\<close> is rejected with 400, whatever \<open>genuineOpinion\<close> is,
  and so is an undefined \<open>genuineOpinion\<close>; a \<open>genuineOpinion\<close> that is falsy but not
  \<open>undefined\<close> (\<open>false\<close>, \<open>null\<close>, 0, the empty string) passes the check, as does any
  other value but \<open>undefined\<close>, and with the other fields valid (the three texts truthy,
  the rating a value that compares as a number \<open>n\<close> neither below 1 nor above 5) and no
  store error the row is inserted and the response is 201 with it.
\<close>

theorem testimonial_presence_checks:
  assumes r: "r = handle c e (POST_testimonials b) d"
    and row: "row = \<lparr>testimonial_id = testimonials_seq d,
                  reviewer_name = body_field b ''reviewerName'',
                  reviewer_email = body_field b ''reviewerEmail'',
                  review_title = sql_value (body_field b ''reviewTitle''),
                  review_text = body_field b ''reviewText'',
                  rating = body_field b ''rating'',
                  genuine_opinion = body_field b ''genuineOpinion'',
                  created_at = now e\<rparr>"
  shows "(\<not> truthy (body_field b ''reviewerName'') \<or> \<not> truthy (body_field b ''reviewerEmail'')
          \<or> \<not> truthy (body_field b ''reviewText'') \<or> \<not> truthy (body_field b ''rating'')
          \<or> body_field b ''genuineOpinion'' = JUndefined
         \<longrightarrow> sent r = Some (400, Error ''All testimonial fields (except title) are required.''))
       \<and> (truthy (body_field b ''reviewerName'') \<and> truthy (body_field b ''reviewerEmail'')
          \<and> truthy (body_field b ''reviewText'') \<and> truthy (body_field b ''rating'')
          \<and> to_number c (body_field b ''rating'') = Inr n
          \<and> \<not> js_less n (Fin 1) \<and> \<not> js_less (Fin 5) n
          \<and> \<not> truthy (body_field b ''genuineOpinion'')
          \<and> body_field b ''genuineOpinion'' \<noteq> JUndefined
          \<and> fault e = None
         \<longrightarrow> sent r = Some (201, Row (TestimonialRow row))
             \<and> testimonials (store r) = testimonials d @ [row])
       \<and> (truthy (body_field b ''reviewerName'') \<and> truthy (body_field b ''reviewerEmail'')
          \<and> truthy (body_field b ''reviewText'') \<and> truthy (body_field b ''rating'')
          \<and> to_number c (body_field b ''rating'') = Inr n
          \<and> \<not> js_less n (Fin 1) \<and> \<not> js_less (Fin 5) n
          \<and> body_field b ''genuineOpinion'' \<noteq> JUndefined
          \<and> fault e = None
         \<longrightarrow> sent r = Some (201, Row (TestimonialRow row))
             \<and> testimonials (store r) = testimonials d @ [row])"
proof -
  have ok: "sent r = Some (201, Row (TestimonialRow row))
      \<and> testimonials (store r) = testimonials d @ [row]"
    if "truthy (body_field b ''reviewerName'')" "truthy (body_field b ''reviewerEmail'')"
      "truthy (body_field b ''reviewText'')" "truthy (body_field b ''rating'')"
      "to_number c (body_field b ''rating'') = Inr n"
      "\<not> js_less n (Fin 1)" "\<not> js_less (Fin 5) n"
      "body_field b ''genuineOpinion'' \<noteq> JUndefined" "fault e = None"
    using that r row
    by (simp add: testimonial_valid [where n = n] Let_def sent_respond store_respond)
  have A: "\<not> truthy (body_field b ''reviewerName'') \<or> \<not> truthy (body_field b ''reviewerEmail'')
          \<or> \<not> truthy (body_field b ''reviewText'') \<or> \<not> truthy (body_field b ''rating'')
          \<or> body_field b ''genuineOpinion'' = JUndefined
         \<longrightarrow> sent r = Some (400, Error ''All testimonial fields (except title) are required.'')"
    using r by (simp add: testimonial_missing sent_respond)
  have B: "truthy (body_field b ''reviewerName'') \<and> truthy (body_field b ''reviewerEmail'')
          \<and> truthy (body_field b ''reviewText'') \<and> truthy (body_field b ''rating'')
          \<and> to_number c (body_field b ''rating'') = Inr n
          \<and> \<not> js_less n (Fin 1) \<and> \<not> js_less (Fin 5) n
          \<and> \<not> truthy (body_field b ''genuineOpinion'')
          \<and> body_field b ''genuineOpinion'' \<noteq> JUndefined
          \<and> fault e = None
         \<longrightarrow> sent r = Some (201, Row (TestimonialRow row))
             \<and> testimonials (store r) = testimonials d @ [row]"
    using ok by blast
  have C: "truthy (body_field b ''reviewerName'') \<and> truthy (body_field b ''reviewerEmail'')
          \<and> truthy (body_field b ''reviewText'') \<and> truthy (body_field b ''rating'')
          \<and> to_number c (body_field b ''rating'') = Inr n
          \<and> \<not> js_less n (Fin 1) \<and> \<not> js_less (Fin 5) n
          \<and> body_field b ''genuineOpinion'' \<noteq> JUndefined
          \<and> fault e = None
         \<longrightarrow> sent r = Some (201, Row (TestimonialRow row))
             \<and> testimonials (store r) = testimonials d @ [row]"
    using ok by blast
  show ?thesis
    by (rule conjI [OF A conjI [OF B C]])
qed

theorem testimonial_presence_checks_witness:
  "review_body (JNum (Fin 5)) (JBool False) ''genuineOpinion'' = Some (JBool False)
   \<and> \<not> truthy (JBool False)
   \<and> to_number sample_cfg (JNum (Fin 5)) = Inr (Fin 5)
   \<and> sent (handle sample_cfg ok_call (POST_testimonials (review_body (JNum (Fin 5)) (JBool False)))
             init_db)
       = Some (201, Row (TestimonialRow (review_row (JNum (Fin 5)) (JBool False))))
   \<and> sent (handle sample_cfg ok_call (POST_testimonials (review_body (JNum (Fin 5)) JNull))
             init_db)
       = Some (201, Row (TestimonialRow (review_row (JNum (Fin 5)) JNull)))
   \<and> sent (handle sample_cfg ok_call (POST_testimonials (review_body (JNum (Fin 0)) (JBool True)))
             init_db)
       = Some (400, Error ''All testimonial fields (except title) are required.'')"
  using testimonial_presence_checks [where c = sample_cfg and e = ok_call and d = init_db
      and b = "review_body (JNum (Fin 5)) (JBool False)" and n = "Fin 5", OF refl refl]
    testimonial_presence_checks [where c = sample_cfg and e = ok_call and d = init_db
      and b = "review_body (JNum (Fin 5)) JNull" and n = "Fin 5", OF refl refl]
    testimonial_presence_checks [where c = sample_cfg and e = ok_call and d = init_db
      and b = "review_body (JNum (Fin 0)) (JBool True)" and n = "Fin 0", OF refl refl]
  by (simp add: review_fields review_row_def ok_call_def init_db_def sql_value_def)
     (simp add: review_body_def)

text \<open>
  C5, as amended. With \<open>reviewerName\<close>, \<open>reviewerEmail\<close> and \<open>reviewText\<close> truthy and
  \<open>genuineOpinion\<close> defined, the request is rejected with 400 exactly when \<open>rating\<close> is
  falsy or compares, as a number, below 1 or above 5, and a rejected request sends nothing
  to the store; for a numeric rating \<open>q\<close> that is \<open>q < 1\<close> or \<open>5 < q\<close>. The handler has no
  check that the rating is an integer: every numeric rating from 1 to 5, integer or not, is
  sent to the store in an \<open>INSERT\<close>, and with no store error the response is 201 with the
  row holding that rating. So an integer from 1 to 5 is never rejected with 400, ratings 0
  and 6 are, and ratings 1 and 5 are accepted with 201 when the store raises no error. A
  truthy rating whose conversion to a number throws gets no response from the handler and
  nothing is sent to the store.
\<close>

theorem testimonial_rating_check:
  assumes r: "r = handle c e (POST_testimonials b) d"
    and rt: "rt = body_field b ''rating''"
    and q: "q = INSERT_testimonials (body_field b ''reviewerName'')
                  (body_field b ''reviewerEmail'') (body_field b ''reviewTitle'')
                  (body_field b ''reviewText'') rt (body_field b ''genuineOpinion'')"
    and present: "truthy (body_field b ''reviewerName'') \<and> truthy (body_field b ''reviewerEmail'')
        \<and> truthy (body_field b ''reviewText'') \<and> body_field b ''genuineOpinion'' \<noteq> JUndefined"
  shows "((\<exists>bd. sent r = Some (400, bd))
          \<longleftrightarrow> \<not> truthy rt
              \<or> (\<exists>n. to_number c rt = Inr n \<and> (js_less n (Fin 1) \<or> js_less (Fin 5) n)))
       \<and> ((\<exists>bd. sent r = Some (400, bd)) \<longrightarrow> issued r = [] \<and> store r = d)
       \<and> (\<forall>x. rt = JNum (Fin x) \<longrightarrow> ((\<exists>bd. sent r = Some (400, bd)) \<longleftrightarrow> x < 1 \<or> 5 < x))
       \<and> (\<forall>x. rt = JNum (Fin x) \<and> 1 \<le> x \<and> x \<le> 5
             \<longrightarrow> issued r = [q]
               \<and> (fault e = None
                   \<longrightarrow> (\<exists>row. sent r = Some (201, Row (TestimonialRow row)) \<and> rating row = rt
                          \<and> testimonials (store r) = testimonials d @ [row])))
       \<and> (spec_rating_ok rt \<longrightarrow> \<not> (\<exists>bd. sent r = Some (400, bd)))
       \<and> (rt = JNum (Fin 0) \<or> rt = JNum (Fin 6) \<longrightarrow> (\<exists>bd. sent r = Some (400, bd)))
       \<and> ((rt = JNum (Fin 1) \<or> rt = JNum (Fin 5)) \<and> fault e = None
          \<longrightarrow> (\<exists>row. sent r = Some (201, Row (TestimonialRow row)) \<and> rating row = rt))
       \<and> (\<forall>err. truthy rt \<and> to_number c rt = Inl err
             \<longrightarrow> outcome r = Uncaught err \<and> issued r = [] \<and> store r = d)"
proof -
  let ?bad = "\<not> truthy rt
      \<or> (\<exists>n. to_number c rt = Inr n \<and> (js_less n (Fin 1) \<or> js_less (Fin 5) n))"
  have p: "truthy (body_field b ''reviewerName'')" "truthy (body_field b ''reviewerEmail'')"
    "truthy (body_field b ''reviewText'')" "body_field b ''genuineOpinion'' \<noteq> JUndefined"
    using present by simp_all
  have falsy: "r = respond 400 (Error ''All testimonial fields (except title) are required.'') d []"
    if "\<not> truthy rt"
    using that r rt by (simp add: testimonial_missing)
  have range: "r = respond 400 (Error ''Rating must be between 1 and 5.'') d []"
    if "truthy rt" "to_number c rt = Inr n" "js_less n (Fin 1) \<or> js_less (Fin 5) n" for n
    using that r rt p testimonial_range [of b c n e d] by simp
  have throw: "r = \<lparr>outcome = Uncaught err, after_ms = 0, store = d, issued = []\<rparr>"
    if "truthy rt" "to_number c rt = Inl err" for err
    using that r rt p testimonial_throw [of b c err e d] by simp
  have valid: "issued r = [q]
      \<and> (\<forall>bd. sent r \<noteq> Some (400, bd))
      \<and> (fault e = None
          \<longrightarrow> (\<exists>row. sent r = Some (201, Row (TestimonialRow row)) \<and> rating row = rt
                 \<and> testimonials (store r) = testimonials d @ [row]))"
    if "truthy rt" "to_number c rt = Inr n" "\<not> js_less n (Fin 1)" "\<not> js_less (Fin 5) n" for n
    using that r rt q p
    by (cases "fault e")
      (simp_all add: testimonial_valid [where n = n] Let_def sent_respond store_respond
        issued_respond)
  have A: "(\<exists>bd. sent r = Some (400, bd)) \<longleftrightarrow> ?bad"
  proof (cases "truthy rt")
    case False
    with falsy show ?thesis by (simp add: sent_respond)
  next
    case True
    show ?thesis
    proof (cases "to_number c rt")
      case (Inl err)
      with throw [OF True] have "sent r = None" by (simp add: sent_def)
      with True Inl show ?thesis by simp
    next
      case (Inr n)
      show ?thesis
      proof (cases "js_less n (Fin 1) \<or> js_less (Fin 5) n")
        case True
        with range [OF \<open>truthy rt\<close> Inr] Inr show ?thesis by (auto simp: sent_respond)
      next
        case False
        with valid [OF \<open>truthy rt\<close> Inr] Inr \<open>truthy rt\<close> show ?thesis by auto
      qed
    qed
  qed
  have A2: "(\<exists>bd. sent r = Some (400, bd)) \<longrightarrow> issued r = [] \<and> store r = d"
  proof
    assume "\<exists>bd. sent r = Some (400, bd)"
    with A have ?bad by simp
    then show "issued r = [] \<and> store r = d"
    proof
      assume "\<not> truthy rt"
      with falsy show ?thesis by (simp add: issued_respond store_respond)
    next
      assume "\<exists>n. to_number c rt = Inr n \<and> (js_less n (Fin 1) \<or> js_less (Fin 5) n)"
      then obtain n where n: "to_number c rt = Inr n" "js_less n (Fin 1) \<or> js_less (Fin 5) n"
        by blast
      show ?thesis
      proof (cases "truthy rt")
        case True
        from range [OF True n] show ?thesis by (simp add: issued_respond store_respond)
      next
        case False
        with falsy show ?thesis by (simp add: issued_respond store_respond)
      qed
    qed
  qed
  have B: "\<forall>x. rt = JNum (Fin x) \<longrightarrow> ((\<exists>bd. sent r = Some (400, bd)) \<longleftrightarrow> x < 1 \<or> 5 < x)"
  proof (intro allI impI)
    fix x assume x: "rt = JNum (Fin x)"
    have "?bad \<longleftrightarrow> x < 1 \<or> 5 < x"
      unfolding x by auto
    with A show "(\<exists>bd. sent r = Some (400, bd)) \<longleftrightarrow> x < 1 \<or> 5 < x"
      by simp
  qed
  have B2: "\<forall>x. rt = JNum (Fin x) \<and> 1 \<le> x \<and> x \<le> 5
             \<longrightarrow> issued r = [q]
               \<and> (fault e = None
                   \<longrightarrow> (\<exists>row. sent r = Some (201, Row (TestimonialRow row)) \<and> rating row = rt
                          \<and> testimonials (store r) = testimonials d @ [row]))"
  proof (intro allI impI)
    fix x assume x: "rt = JNum (Fin x) \<and> 1 \<le> x \<and> x \<le> 5"
    then have "truthy rt" "to_number c rt = Inr (Fin x)" "\<not> js_less (Fin x) (Fin 1)"
      "\<not> js_less (Fin 5) (Fin x)"
      by auto
    from valid [OF this]
    show "issued r = [q]
               \<and> (fault e = None
                   \<longrightarrow> (\<exists>row. sent r = Some (201, Row (TestimonialRow row)) \<and> rating row = rt
                          \<and> testimonials (store r) = testimonials d @ [row]))"
      by blast
  qed
  have C: "spec_rating_ok rt \<longrightarrow> \<not> (\<exists>bd. sent r = Some (400, bd))"
    unfolding A by (auto simp: spec_rating_ok_def)
  have D: "rt = JNum (Fin 0) \<or> rt = JNum (Fin 6) \<longrightarrow> (\<exists>bd. sent r = Some (400, bd))"
    unfolding A by auto
  have E: "(rt = JNum (Fin 1) \<or> rt = JNum (Fin 5)) \<and> fault e = None
          \<longrightarrow> (\<exists>row. sent r = Some (201, Row (TestimonialRow row)) \<and> rating row = rt)"
  proof
    assume a: "(rt = JNum (Fin 1) \<or> rt = JNum (Fin 5)) \<and> fault e = None"
    then obtain x where "rt = JNum (Fin x) \<and> 1 \<le> x \<and> x \<le> 5"
      by auto
    with B2 a show "\<exists>row. sent r = Some (201, Row (TestimonialRow row)) \<and> rating row = rt"
      by blast
  qed
  have F: "\<forall>err. truthy rt \<and> to_number c rt = Inl err
             \<longrightarrow> outcome r = Uncaught err \<and> issued r = [] \<and> store r = d"
    using throw by auto
  show ?thesis
    by (rule conjI [OF A conjI [OF A2 conjI [OF B conjI [OF B2 conjI [OF C conjI [OF D
          conjI [OF E F]]]]]]])
qed

text \<open>
  C5 as stated has every rating that is not an integer from 1 to 5 rejected with 400. The
  rating 2.5 is not such an integer, and the request is answered 201.
\<close>

theorem rating_fraction_counterexample:
  "\<not> spec_rating_ok (JNum (Fin (5 / 2)))
   \<and> sent (handle sample_cfg ok_call
             (POST_testimonials (review_body (JNum (Fin (5 / 2))) (JBool True))) init_db)
       = Some (201, Row (TestimonialRow (review_row (JNum (Fin (5 / 2))) (JBool True))))"
  by (simp add: spec_rating_ok_def testimonial_valid [where n = "Fin (5 / 2)"] review_fields
      review_row_def ok_call_def init_db_def sent_respond sql_value_def Let_def)

theorem testimonial_rating_check_witness:
  "truthy (body_field (review_body (JNum (Fin 6)) (JBool True)) ''reviewerName'')
   \<and> body_field (review_body (JNum (Fin 6)) (JBool True)) ''genuineOpinion'' \<noteq> JUndefined
   \<and> sent (handle sample_cfg ok_call (POST_testimonials (review_body (JNum (Fin 6)) (JBool True)))
             init_db) = Some (400, Error ''Rating must be between 1 and 5.'')
   \<and> issued (handle sample_cfg ok_call (POST_testimonials (review_body (JNum (Fin 6)) (JBool True)))
             init_db) = []
   \<and> sent (handle sample_cfg ok_call (POST_testimonials (review_body (JNum (Fin 1)) (JBool True)))
             init_db) = Some (201, Row (TestimonialRow (review_row (JNum (Fin 1)) (JBool True))))
   \<and> issued (handle sample_cfg ok_call
               (POST_testimonials (review_body (JNum (Fin (5 / 2))) (JBool True))) init_db)
       = [INSERT_testimonials (JStr ''Ana'') (JStr ''ana@example.com'') JUndefined
            (JStr ''Very relaxing'') (JNum (Fin (5 / 2))) (JBool True)]
   \<and> testimonials (store (handle sample_cfg ok_call
               (POST_testimonials (review_body (JNum (Fin (5 / 2))) (JBool True))) init_db))
       = [review_row (JNum (Fin (5 / 2))) (JBool True)]"
proof -
  have p: "truthy (body_field (review_body rt go) ''reviewerName'')
      \<and> truthy (body_field (review_body rt go) ''reviewerEmail'')
      \<and> truthy (body_field (review_body rt go) ''reviewText'')
      \<and> (go \<noteq> JUndefined \<longrightarrow> body_field (review_body rt go) ''genuineOpinion'' \<noteq> JUndefined)"
    for rt go
    by (simp add: review_fields)
  note t6 = testimonial_rating_check [where c = sample_cfg and e = ok_call and d = init_db
      and b = "review_body (JNum (Fin 6)) (JBool True)", OF refl refl refl]
  note t1 = testimonial_rating_check [where c = sample_cfg and e = ok_call and d = init_db
      and b = "review_body (JNum (Fin 1)) (JBool True)", OF refl refl refl]
  note th = testimonial_rating_check [where c = sample_cfg and e = ok_call and d = init_db
      and b = "review_body (JNum (Fin (5 / 2))) (JBool True)", OF refl refl refl]
  from t6 p [of "JNum (Fin 6)" "JBool True"]
  have r6: "(\<exists>bd. sent (handle sample_cfg ok_call
        (POST_testimonials (review_body (JNum (Fin 6)) (JBool True))) init_db) = Some (400, bd))
      \<and> issued (handle sample_cfg ok_call
        (POST_testimonials (review_body (JNum (Fin 6)) (JBool True))) init_db) = []"
    by (simp add: review_fields)
  from t1 p [of "JNum (Fin 1)" "JBool True"]
  have r1: "\<exists>row. sent (handle sample_cfg ok_call
        (POST_testimonials (review_body (JNum (Fin 1)) (JBool True))) init_db)
      = Some (201, Row (TestimonialRow row))"
    by (auto simp add: review_fields ok_call_def)
  have pp: "truthy (body_field (review_body (JNum (Fin (5 / 2))) (JBool True)) ''reviewerName'')
      \<and> truthy (body_field (review_body (JNum (Fin (5 / 2))) (JBool True)) ''reviewerEmail'')
      \<and> truthy (body_field (review_body (JNum (Fin (5 / 2))) (JBool True)) ''reviewText'')
      \<and> body_field (review_body (JNum (Fin (5 / 2))) (JBool True)) ''genuineOpinion''
          \<noteq> JUndefined"
    by (simp add: review_fields)
  note b2 = th [OF pp, THEN conjunct2, THEN conjunct2, THEN conjunct2, THEN conjunct1,
      rule_format, of "5 / 2"]
  from b2
  have rh: "issued (handle sample_cfg ok_call
               (POST_testimonials (review_body (JNum (Fin (5 / 2))) (JBool True))) init_db)
       = [INSERT_testimonials (JStr ''Ana'') (JStr ''ana@example.com'') JUndefined
            (JStr ''Very relaxing'') (JNum (Fin (5 / 2))) (JBool True)]"
    by (simp add: review_fields)
  have e6: "sent (handle sample_cfg ok_call
        (POST_testimonials (review_body (JNum (Fin 6)) (JBool True))) init_db)
      = Some (400, Error ''Rating must be between 1 and 5.'')"
    by (simp add: testimonial_range [where n = "Fin 6"] review_fields sent_respond)
  have e1: "sent (handle sample_cfg ok_call
        (POST_testimonials (review_body (JNum (Fin 1)) (JBool True))) init_db)
      = Some (201, Row (TestimonialRow (review_row (JNum (Fin 1)) (JBool True))))"
    by (simp add: testimonial_valid [where n = "Fin 1"] review_fields sent_respond
        review_row_def ok_call_def init_db_def sql_value_def Let_def)
  have eh: "testimonials (store (handle sample_cfg ok_call
               (POST_testimonials (review_body (JNum (Fin (5 / 2))) (JBool True))) init_db))
       = [review_row (JNum (Fin (5 / 2))) (JBool True)]"
    by (simp add: testimonial_valid [where n = "Fin (5 / 2)"] review_fields store_respond
        review_row_def ok_call_def init_db_def sql_value_def Let_def)
  from r6 r1 rh e6 e1 eh p [of "JNum (Fin 6)" "JBool True"] show ?thesis
    by simp
qed

section \<open>The bodies of the 500 responses\<close>

lemma sent_500_respond: "sent (respond st b0 d qs) = Some (500, bd) \<longleftrightarrow> st = 500 \<and> b0 = bd"
  by (simp add: sent_respond)

lemma get_bookings4_500:
  "sent (get_bookings4 c e d) = Some (500, bd)
   \<Longrightarrow> fault e \<noteq> None \<and> bd = Error ''Failed to retrieve bookings from the database.''"
  by (cases "fault e")
    (simp_all add: get_bookings4_def pool_query_ok pool_query_fault sent_500_respond
      del: exec.simps)

lemma post_bookings4_500:
  "sent (post_bookings4 c e b d) = Some (500, bd)
   \<Longrightarrow> fault e \<noteq> None \<and> bd = Error ''Failed to add booking to the database.''"
  by (cases "fault e")
    (simp_all add: post_bookings4_def Let_def pool_query_ok pool_query_fault sent_500_respond
      del: exec.simps split: if_splits)

lemma delete_bookings4_500:
  "sent (delete_bookings4 c e i d) = Some (500, bd)
   \<Longrightarrow> fault e \<noteq> None \<and> bd = Error ''Failed to delete booking from the database.''"
  by (cases "fault e")
    (simp_all add: delete_bookings4_def Let_def pool_query_ok pool_query_fault sent_500_respond
      del: exec.simps split: if_splits)

lemma post_payments_initiate_500:
  "sent (post_payments_initiate c b d) \<noteq> Some (500, bd)"
proof (cases "truthy (body_field b ''amount'') \<and> truthy (body_field b ''serviceName'')
    \<and> truthy (body_field b ''bookingId'')")
  case True
  then show ?thesis
    by (cases "interpolate c [body_field b ''bookingId'', body_field b ''serviceName'',
          body_field b ''amount'']")
      (simp_all add: initiate_uncaught initiate_type_error sent_def)
next
  case False
  then have "sent (post_payments_initiate c b d)
      = Some (400, Error ''Payment amount, service name, and booking ID are required to initiate payment.'')"
    by (intro initiate_400) blast
  then show ?thesis by simp
qed

lemma post_payments_confirm_500:
  "sent (post_payments_confirm c e b d) = Some (500, bd)
   \<Longrightarrow> bd = Error ''Failed to update payment status in the database.''
       \<and> (fault e \<noteq> None \<or> (\<exists>err. to_string c (body_field b ''bookingId'') = Inl err))"
  by (cases "fault e"; cases "to_string c (body_field b ''bookingId'')")
    (simp_all add: post_payments_confirm_def Let_def pool_query_ok pool_query_fault
      sent_500_respond del: exec.simps split: if_splits)

lemma post_testimonials_500:
  "sent (post_testimonials c e b d) = Some (500, bd)
   \<Longrightarrow> fault e \<noteq> None \<and> bd = Error ''Failed to add testimonial to the database.''"
  by (cases "fault e"; cases "to_number c (body_field b ''rating'')")
    (simp_all add: post_testimonials_def Let_def pool_query_ok pool_query_fault
      sent_def respond_def del: exec.simps split: if_splits)

lemma get_testimonials_500:
  "sent (get_testimonials c e d) = Some (500, bd)
   \<Longrightarrow> fault e \<noteq> None \<and> bd = Error ''Failed to retrieve testimonials from the database.''"
  by (cases "fault e")
    (simp_all add: get_testimonials_def pool_query_ok pool_query_fault sent_500_respond
      del: exec.simps)

lemma other_500:
  assumes "\<forall>i. rq \<noteq> DELETE_testimonials_id i" "sent (handle c e rq d) = Some (500, bd)"
  shows "bd \<in> {Error ''Failed to retrieve bookings from the database.'',
                Error ''Failed to add booking to the database.'',
                Error ''Failed to delete booking from the database.'',
                Error ''Failed to update payment status in the database.'',
                Error ''Failed to add testimonial to the database.'',
                Error ''Failed to retrieve testimonials from the database.''}
       \<and> (fault e \<noteq> None
          \<or> (\<exists>b err. rq = POST_payments_confirm b
                \<and> to_string c (body_field b ''bookingId'') = Inl err))"
proof (cases rq)
  case GET_bookings4
  with assms(2) get_bookings4_500 [of c e d bd] show ?thesis by simp
next
  case (POST_bookings4 b)
  with assms(2) post_bookings4_500 [of c e b d bd] show ?thesis by simp
next
  case (DELETE_bookings4_id i)
  with assms(2) delete_bookings4_500 [of c e i d bd] show ?thesis by simp
next
  case (POST_payments_initiate b)
  with assms(2) post_payments_initiate_500 [of c b d bd] show ?thesis by simp
next
  case (POST_payments_confirm b)
  with assms(2) post_payments_confirm_500 [of c e b d bd] show ?thesis by simp
next
  case (POST_testimonials b)
  with assms(2) post_testimonials_500 [of c e b d bd] show ?thesis by simp
next
  case GET_testimonials
  with assms(2) get_testimonials_500 [of c e d bd] show ?thesis by simp
next
  case (DELETE_testimonials_id i)
  with assms(1) show ?thesis by simp
qed

lemma other_fault_same:
  assumes "\<forall>i. rq \<noteq> DELETE_testimonials_id i" "fault e = Some m" "fault e' = Some m'"
  shows "sent (handle c e rq d) = sent (handle c e' rq d)"
proof (cases rq)
  case GET_bookings4
  then show ?thesis
    by (simp add: get_bookings4_def pool_query_fault [OF assms(2)] pool_query_fault [OF assms(3)]
        sent_respond)
next
  case (POST_bookings4 b)
  then show ?thesis
    by (simp add: post_bookings4_def Let_def pool_query_fault [OF assms(2)]
        pool_query_fault [OF assms(3)] sent_respond)
next
  case (DELETE_bookings4_id i)
  then show ?thesis
    by (simp add: delete_bookings4_def Let_def pool_query_fault [OF assms(2)]
        pool_query_fault [OF assms(3)] sent_respond)
next
  case (POST_payments_initiate b)
  then show ?thesis by simp
next
  case (POST_payments_confirm b)
  then show ?thesis
    by (simp add: post_payments_confirm_def Let_def pool_query_fault [OF assms(2)]
        pool_query_fault [OF assms(3)] sent_respond)
next
  case (POST_testimonials b)
  then show ?thesis
    by (simp add: post_testimonials_def Let_def pool_query_fault [OF assms(2)]
        pool_query_fault [OF assms(3)] sent_def respond_def split: sum.splits)
next
  case GET_testimonials
  then show ?thesis
    by (simp add: get_testimonials_def pool_query_fault [OF assms(2)]
        pool_query_fault [OF assms(3)] sent_respond)
next
  case (DELETE_testimonials_id i)
  with assms(1) show ?thesis by simp
qed

lemma delete_testimonials_fault:
  "fault e = Some m \<Longrightarrow>
   delete_testimonials c e i d
   = respond 500 (Error (''Failed to delete testimonial from the database: ''
                         @ (if m = [] then ''Unknown database error'' else m))) d
       [DELETE_testimonials (JStr i)]"
  by (simp add: delete_testimonials_def Let_def pool_query_fault)

text \<open>
  C9. When the store raises an error with message \<open>m\<close> during
  \<open>DELETE /api/testimonials/:id\<close>, the response is 500 and its body ends with \<open>m\<close>
  (with \<open>Unknown database error\<close> when \<open>m\<close> is empty). For every other request, the body
  of a 500 response sent by the handler is one of six fixed messages; such a response
  comes from a store error or, for a payment confirmation, from a \<open>bookingId\<close> whose
  conversion to a string throws; and on a store error the response is the same whatever
  the message of the error.
\<close>

theorem store_error_bodies:
  "(fault e = Some m
     \<longrightarrow> sent (handle c e (DELETE_testimonials_id i) d)
         = Some (500, Error (''Failed to delete testimonial from the database: ''
                             @ (if m = [] then ''Unknown database error'' else m))))
   \<and> ((\<forall>i. rq \<noteq> DELETE_testimonials_id i) \<and> sent (handle c e rq d) = Some (500, bd)
       \<longrightarrow> bd \<in> {Error ''Failed to retrieve bookings from the database.'',
                  Error ''Failed to add booking to the database.'',
                  Error ''Failed to delete booking from the database.'',
                  Error ''Failed to update payment status in the database.'',
                  Error ''Failed to add testimonial to the database.'',
                  Error ''Failed to retrieve testimonials from the database.''}
         \<and> (fault e \<noteq> None
            \<or> (\<exists>b err. rq = POST_payments_confirm b
                  \<and> to_string c (body_field b ''bookingId'') = Inl err)))
   \<and> ((\<forall>i. rq \<noteq> DELETE_testimonials_id i) \<and> fault e = Some m \<and> fault e' = Some m'
       \<longrightarrow> sent (handle c e rq d) = sent (handle c e' rq d))"
proof (intro conjI impI)
  assume "fault e = Some m"
  then show "sent (handle c e (DELETE_testimonials_id i) d)
         = Some (500, Error (''Failed to delete testimonial from the database: ''
                             @ (if m = [] then ''Unknown database error'' else m)))"
    by (simp add: delete_testimonials_fault sent_respond)
next
  assume a: "(\<forall>i. rq \<noteq> DELETE_testimonials_id i) \<and> sent (handle c e rq d) = Some (500, bd)"
  note o = other_500 [OF conjunct1 [OF a] conjunct2 [OF a]]
  show "bd \<in> {Error ''Failed to retrieve bookings from the database.'',
                  Error ''Failed to add booking to the database.'',
                  Error ''Failed to delete booking from the database.'',
                  Error ''Failed to update payment status in the database.'',
                  Error ''Failed to add testimonial to the database.'',
                  Error ''Failed to retrieve testimonials from the database.''}"
    by (rule conjunct1 [OF o])
  show "fault e \<noteq> None
      \<or> (\<exists>b err. rq = POST_payments_confirm b
            \<and> to_string c (body_field b ''bookingId'') = Inl err)"
    by (rule conjunct2 [OF o])
next
  assume a: "(\<forall>i. rq \<noteq> DELETE_testimonials_id i) \<and> fault e = Some m \<and> fault e' = Some m'"
  show "sent (handle c e rq d) = sent (handle c e' rq d)"
    by (rule other_fault_same [OF conjunct1 [OF a] conjunct1 [OF conjunct2 [OF a]]
          conjunct2 [OF conjunct2 [OF a]]])
qed

theorem store_error_bodies_witness:
  "fault down_call = Some ''connection refused''
   \<and> sent (handle sample_cfg down_call (DELETE_testimonials_id ''1'') init_db)
       = Some (500, Error ''Failed to delete testimonial from the database: connection refused'')
   \<and> sent (handle sample_cfg down_call (DELETE_bookings4_id ''1'') init_db)
       = Some (500, Error ''Failed to delete booking from the database.'')"
proof -
  have f: "fault down_call = Some ''connection refused''"
    by (simp add: down_call_def)
  note t = store_error_bodies [where c = sample_cfg and e = down_call and d = init_db
      and m = "''connection refused''" and i = "''1''" and rq = "DELETE_bookings4_id ''1''"
      and bd = "Error ''Failed to delete booking from the database.''"]
  have "sent (handle sample_cfg down_call (DELETE_testimonials_id ''1'') init_db)
       = Some (500, Error (''Failed to delete testimonial from the database: ''
             @ (if ''connection refused'' = [] then ''Unknown database error''
                else ''connection refused'')))"
    by (rule mp [OF conjunct1 [OF t] f])
  then have "sent (handle sample_cfg down_call (DELETE_testimonials_id ''1'') init_db)
       = Some (500, Error ''Failed to delete testimonial from the database: connection refused'')"
    by simp
  moreover have "sent (handle sample_cfg down_call (DELETE_bookings4_id ''1'') init_db)
       = Some (500, Error ''Failed to delete booking from the database.'')"
    by (simp add: delete_bookings4_def pool_query_fault [OF f] sent_respond)
  ultimately show ?thesis using f by simp
qed

end
